theory Spec2Isabelle
  imports Main "HOL-Library.Word"
begin

section \<open>Values, errors and panics\<close>

type_synonym byte = "8 word"

text \<open>
  A Go \<open>error\<close> value.  \<open>ColumnNameNotFound\<close> is the package's sentinel, compared by
  identity (\<open>errors.Is\<close>); every other error is kept by its message.
\<close>

datatype error = ColumnNameNotFound | ErrorString string

fun Error :: "error \<Rightarrow> string" where
  "Error ColumnNameNotFound = ''column name not found''"
| "Error (ErrorString s) = s"

text \<open>Run-time panics of the Go code: they are neither a value nor an error return.\<close>

datatype panic = IndexOutOfRange | SliceBoundsOutOfRange | InterfaceConversion | NilDereference

datatype failure = Panic panic | Err error

text \<open>
  The dynamic value behind the \<open>interface{}\<close> that decoding returns: \<open>nil\<close>, a
  \<open>net.IP\<close> (a byte slice), a \<open>primitive.UUID\<close> (sixteen bytes), or a value of any
  other dynamic type.
\<close>

datatype val = VNil | VIP "byte list" | VUUID "byte list" | VOther string

section \<open>Result sets and rows\<close>

datatype DataType = Inet | Uuid | Varchar | Int | OtherType nat

type_synonym ProtocolVersion = "8 word"

text \<open>A column of a raw row is a byte slice; \<open>None\<close> is the nil slice of a null column.\<close>

type_synonym Column = "byte list option"

record ColumnMetadata =
  Keyspace :: string
  Table :: string
  Name :: string
  Type :: DataType

record RowsMetadata =
  Columns :: "ColumnMetadata list"

record RowsResult =
  Metadata :: RowsMetadata
  Data :: "Column list list"

record ResultSet =
  columnIndexes :: "string \<rightharpoonup> int"
  result :: RowsResult
  version :: ProtocolVersion

record Row =
  resultSet :: ResultSet
  row :: "Column list"

text \<open>
  \<open>DecodeType\<close> is defined outside \<open>resultset.go\<close> and \<open>endpoint.go\<close>; it is a
  parameter \<open>D\<close> of every function that decodes: column type, protocol version and
  raw column to a value or an error.
\<close>

type_synonym decoder = "DataType \<Rightarrow> ProtocolVersion \<Rightarrow> Column \<Rightarrow> error + val"

text \<open>The loop of \<open>NewResultSet\<close>: \<open>columnIndexes[column.Name] = i\<close> for each column in order.\<close>

fun index_columns :: "ColumnMetadata list \<Rightarrow> int \<Rightarrow> (string \<rightharpoonup> int) \<Rightarrow> (string \<rightharpoonup> int)" where
  "index_columns [] i m = m"
| "index_columns (column # columns) i m = index_columns columns (i + 1) (m(Name column \<mapsto> i))"

definition NewResultSet :: "RowsResult \<Rightarrow> ProtocolVersion \<Rightarrow> ResultSet" where
  "NewResultSet rows v =
     \<lparr>columnIndexes = index_columns (Columns (Metadata rows)) 0 Map.empty,
      result = rows,
      version = v\<rparr>"

definition RowCount :: "ResultSet \<Rightarrow> int" where
  "RowCount rs = int (length (Data (result rs)))"

text \<open>\<open>rs.result.Data[i]\<close> panics out of range.\<close>

definition ResultSet_Row :: "ResultSet \<Rightarrow> int \<Rightarrow> failure + Row" where
  "ResultSet_Row rs i =
     (if 0 \<le> i \<and> i < int (length (Data (result rs)))
      then Inr \<lparr>resultSet = rs, row = Data (result rs) ! nat i\<rparr>
      else Inl (Panic IndexOutOfRange))"

text \<open>
  \<open>ByPos\<close> indexes the column metadata, then the row; either index panics out of range.
  A decoding error is returned as it is.
\<close>

definition ByPos :: "decoder \<Rightarrow> Row \<Rightarrow> int \<Rightarrow> failure + val" where
  "ByPos D r i =
     (if \<not> (0 \<le> i \<and> i < int (length (Columns (Metadata (result (resultSet r))))))
      then Inl (Panic IndexOutOfRange)
      else if \<not> i < int (length (row r))
      then Inl (Panic IndexOutOfRange)
      else (case D (Type (Columns (Metadata (result (resultSet r))) ! nat i))
                   (version (resultSet r)) (row r ! nat i) of
              Inl err \<Rightarrow> Inl (Err err)
            | Inr v \<Rightarrow> Inr v))"

definition ByName :: "decoder \<Rightarrow> Row \<Rightarrow> string \<Rightarrow> failure + val" where
  "ByName D r n =
     (case columnIndexes (resultSet r) n of
        None \<Rightarrow> Inl (Err ColumnNameNotFound)
      | Some i \<Rightarrow> ByPos D r i)"


section \<open>Text forms\<close>

text \<open>\<open>%d\<close> of \<open>fmt.Sprintf\<close> on an \<open>int\<close>: decimal digits, a minus sign when negative.\<close>

fun format_nat :: "nat \<Rightarrow> string" where
  "format_nat n =
     (if n < 10 then [''0123456789'' ! n]
      else format_nat (n div 10) @ [''0123456789'' ! (n mod 10)])"

definition format_int :: "int \<Rightarrow> string" where
  "format_int i = (if i < 0 then ''-'' @ format_nat (nat (- i)) else format_nat (nat i))"

text \<open>Lower-case hexadecimal: two digits for a byte, no leading zeros for a 16-bit field.\<close>

definition hexDigit :: string where
  "hexDigit = ''0123456789abcdef''"

definition hex_byte :: "byte \<Rightarrow> string" where
  "hex_byte b = [hexDigit ! (unat b div 16), hexDigit ! (unat b mod 16)]"

definition hexString :: "byte list \<Rightarrow> string" where
  "hexString bs = concat (map hex_byte bs)"

fun hex_nat :: "nat \<Rightarrow> string" where
  "hex_nat n =
     (if n < 16 then [hexDigit ! n]
      else hex_nat (n div 16) @ [hexDigit ! (n mod 16)])"

text \<open>
  \<open>primitive.UUID\<close> is an array of sixteen bytes; \<open>String()\<close> writes them in hexadecimal
  in groups of 4, 2, 2, 2 and 6 bytes separated by dashes.
\<close>

definition UUID_String :: "byte list \<Rightarrow> string" where
  "UUID_String u =
     hexString (take 4 u) @ ''-'' @ hexString (take 2 (drop 4 u)) @ ''-'' @
     hexString (take 2 (drop 6 u)) @ ''-'' @ hexString (take 2 (drop 8 u)) @ ''-'' @
     hexString (drop 10 u)"

subsection \<open>\<open>net.IP\<close>\<close>

definition v4InV6Prefix :: "byte list" where
  "v4InV6Prefix = [0, 0, 0, 0, 0, 0, 0, 0, 0, 0, 0xff, 0xff]"

definition IPv4zero :: "byte list" where
  "IPv4zero = v4InV6Prefix @ [0, 0, 0, 0]"

definition IPv6zero :: "byte list" where
  "IPv6zero = [0, 0, 0, 0, 0, 0, 0, 0, 0, 0, 0, 0, 0, 0, 0, 0]"

text \<open>
  \<open>IP.Equal\<close>: slices of the same length are compared bytewise; a 4-byte address equals
  the 16-byte address that carries it behind the IPv4-in-IPv6 prefix.
\<close>

definition IP_Equal :: "byte list \<Rightarrow> byte list \<Rightarrow> bool" where
  "IP_Equal ip x =
     (if length ip = length x then ip = x
      else if length ip = 4 \<and> length x = 16 then take 12 x = v4InV6Prefix \<and> ip = drop 12 x
      else if length ip = 16 \<and> length x = 4 then take 12 ip = v4InV6Prefix \<and> drop 12 ip = x
      else False)"

text \<open>\<open>IP.To4\<close>: the four bytes of an IPv4 address, or nothing.\<close>

definition To4 :: "byte list \<Rightarrow> byte list option" where
  "To4 ip =
     (if length ip = 4 then Some ip
      else if length ip = 16 \<and> take 10 ip = [0, 0, 0, 0, 0, 0, 0, 0, 0, 0] \<and> ip ! 10 = 0xff \<and> ip ! 11 = 0xff
      then Some (drop 12 ip)
      else None)"

fun join :: "string \<Rightarrow> string list \<Rightarrow> string" where
  "join sep [] = []"
| "join sep [x] = x"
| "join sep (x # y # ys) = x @ sep @ join sep (y # ys)"

fun fields16 :: "byte list \<Rightarrow> nat list" where
  "fields16 (hi # lo # bs) = (unat hi * 256 + unat lo) # fields16 bs"
| "fields16 _ = []"

fun zero_run :: "nat list \<Rightarrow> nat" where
  "zero_run [] = 0"
| "zero_run (x # xs) = (if x = 0 then Suc (zero_run xs) else 0)"

text \<open>
  The first longest run of at least two zero fields: \<open>longest_zero_run fs i best\<close> scans
  the fields \<open>fs\<close>, the first of which has index \<open>i\<close>; \<open>best\<close> is the start and the
  length of the best run so far (length 0: none).
\<close>

fun longest_zero_run :: "nat list \<Rightarrow> nat \<Rightarrow> nat \<times> nat \<Rightarrow> nat \<times> nat" where
  "longest_zero_run [] i best = best"
| "longest_zero_run (f # fs) i best =
     longest_zero_run fs (Suc i)
       (if 2 \<le> zero_run (f # fs) \<and> snd best < zero_run (f # fs)
        then (i, zero_run (f # fs)) else best)"

definition format_ipv6 :: "byte list \<Rightarrow> string" where
  "format_ipv6 ip =
     (let fs = fields16 ip; (start, len) = longest_zero_run fs 0 (0, 0)
      in if len = 0 then join '':'' (map hex_nat fs)
         else join '':'' (map hex_nat (take start fs)) @ ''::'' @
              join '':'' (map hex_nat (drop (start + len) fs)))"

text \<open>
  \<open>IP.String\<close>, which \<open>%s\<close> of \<open>fmt.Sprintf\<close> calls: \<open><nil>\<close> for the empty slice,
  \<open>?\<close> and the bytes in hexadecimal for a slice of a wrong length, dotted decimal for an
  IPv4 address (also when carried in 16 bytes), the compressed colon form otherwise.
\<close>

definition IP_String :: "byte list \<Rightarrow> string" where
  "IP_String ip =
     (if length ip = 0 then ''<nil>''
      else if length ip \<noteq> 4 \<and> length ip \<noteq> 16 then ''?'' @ hexString ip
      else (case To4 ip of
              Some p4 \<Rightarrow> join ''.'' (map (\<lambda>b. format_nat (unat b)) p4)
            | None \<Rightarrow> format_ipv6 ip))"

text \<open>\<open>strings.Split(s, ":")\<close>: the pieces between the colons, at least one piece.\<close>

fun Split_colon :: "string \<Rightarrow> string list" where
  "Split_colon [] = [[]]"
| "Split_colon (c # cs) =
     (if c = CHR '':'' then [] # Split_colon cs
      else (case Split_colon cs of
              [] \<Rightarrow> [[c]]
            | p # ps \<Rightarrow> (c # p) # ps))"

section \<open>TLS configurations and the bundle\<close>

text \<open>
  A parsed certificate is identified by its DER bytes.  A certificate pool is the set of
  its certificates: \<open>x509.NewCertPool()\<close> is the empty set and \<open>AddCert\<close> inserts.
\<close>

datatype Certificate = Certificate (Raw: "byte list")

type_synonym CertPool = "Certificate set"

text \<open>
  Modelled from the spec: the secure connect bundle.  Type \<open>Bundle\<close> and its methods
  \<open>Host\<close>, \<open>Port\<close> and \<open>TLSConfig\<close> are defined outside \<open>endpoint.go\<close>.  The bundle
  holds the host and port of the metadata endpoint and a pointer to its base TLS
  configuration.
\<close>

record Bundle =
  host :: string
  port :: int
  tlsConfig :: nat

definition Host :: "Bundle \<Rightarrow> string" where
  "Host b = host b"

definition Port :: "Bundle \<Rightarrow> int" where
  "Port b = port b"

text \<open>
  The function value that \<open>copyTLSConfig\<close> installs is a closure over its variables
  \<open>tlsConfig\<close> (a pointer) and \<open>bundle\<close>.
\<close>

datatype closure = VerifyPeerCertificate_func (captured_tlsConfig: nat) (captured_bundle: Bundle)

record tls_Config =
  RootCAs :: "CertPool option"
  Certificates :: "byte list list"
  ServerName :: string
  InsecureSkipVerify :: bool
  VerifyPeerCertificate :: "closure option"

text \<open>
  The store of \<open>tls.Config\<close> objects.  A pointer is an index into the store; a new
  object is appended, so its pointer is the length of the store before.  A pointer beyond
  the store stands for \<open>nil\<close>.
\<close>

type_synonym heap = "tls_Config list"

text \<open>
  Modelled from the spec: \<open>Bundle.TLSConfig\<close>, which is defined outside \<open>endpoint.go\<close>.
  The spec's trust builder starts with "Clone the base configuration" and asks for "a
  fresh configuration value per \<open>Create\<close>/build call"; the code's only step that can do
  so is this call.  It returns a pointer to a new copy of the base configuration
  (\<open>tls.Config.Clone\<close>, which gives \<open>nil\<close> for \<open>nil\<close>).
\<close>

definition Bundle_TLSConfig :: "Bundle \<Rightarrow> heap \<Rightarrow> nat \<times> heap" where
  "Bundle_TLSConfig b h =
     (if tlsConfig b < length h then (length h, h @ [h ! tlsConfig b])
      else (tlsConfig b, h))"

text \<open>
  \<open>copyTLSConfig\<close>: three field assignments through the pointer that
  \<open>bundle.TLSConfig()\<close> returned; the first one panics on \<open>nil\<close>.
\<close>

definition copyTLSConfig :: "Bundle \<Rightarrow> string \<Rightarrow> heap \<Rightarrow> (failure + nat) \<times> heap" where
  "copyTLSConfig bundle serverName h =
     (case Bundle_TLSConfig bundle h of
        (p, h1) \<Rightarrow>
          if \<not> p < length h1 then (Inl (Panic NilDereference), h1)
          else (Inr p,
                h1[p := (h1 ! p)\<lparr>ServerName := serverName,
                                 InsecureSkipVerify := True,
                                 VerifyPeerCertificate := Some (VerifyPeerCertificate_func p bundle)\<rparr>]))"

subsection \<open>The verification callback\<close>

record VerifyOptions =
  Roots :: "CertPool option"
  CurrentTime :: int
  DNSName :: string
  Intermediates :: "CertPool option"

text \<open>
  \<open>x509.ParseCertificate\<close> and \<open>Certificate.Verify\<close> of the standard library are
  parameters \<open>P\<close> and \<open>V\<close>; \<open>V\<close> returns the verified chains or an error.
\<close>

type_synonym parser = "byte list \<Rightarrow> error + Certificate"

type_synonym verifier = "Certificate \<Rightarrow> VerifyOptions \<Rightarrow> error + Certificate list list"

text \<open>The first loop of the callback: parse every certificate, stop at the first failure.\<close>

fun parse_certs :: "parser \<Rightarrow> byte list list \<Rightarrow> error + Certificate list" where
  "parse_certs P [] = Inr []"
| "parse_certs P (asn1Data # rawCerts) =
     (case P asn1Data of
        Inl err \<Rightarrow> Inl (ErrorString (''tls: failed to parse certificate from server: '' @ Error err))
      | Inr cert \<Rightarrow>
          (case parse_certs P rawCerts of
             Inl e \<Rightarrow> Inl e
           | Inr certs \<Rightarrow> Inr (cert # certs)))"

text \<open>The second loop: \<open>opts.Intermediates.AddCert(cert)\<close> for each certificate.\<close>

fun add_certs :: "Certificate list \<Rightarrow> CertPool \<Rightarrow> CertPool" where
  "add_certs [] pool = pool"
| "add_certs (cert # certs) pool = add_certs certs (insert cert pool)"

text \<open>
  The body of the closure, run in the store \<open>h\<close> of the moment of the handshake, at the
  time \<open>now\<close> that \<open>time.Now()\<close> returns.  \<open>Inr ()\<close> is the \<open>nil\<close> error.  \<open>certs[1:]\<close>
  panics on an empty chain.
\<close>

fun call_closure :: "parser \<Rightarrow> verifier \<Rightarrow> heap \<Rightarrow> int \<Rightarrow> closure \<Rightarrow> byte list list \<Rightarrow> failure + unit" where
  "call_closure P V h now (VerifyPeerCertificate_func p bundle) rawCerts =
     (case parse_certs P rawCerts of
        Inl e \<Rightarrow> Inl (Err e)
      | Inr certs \<Rightarrow>
          if \<not> p < length h then Inl (Panic NilDereference)
          else (case certs of
                  [] \<Rightarrow> Inl (Panic SliceBoundsOutOfRange)
                | leaf # rest \<Rightarrow>
                    (case V leaf \<lparr>Roots = RootCAs (h ! p),
                                  CurrentTime = now,
                                  DNSName = Host bundle,
                                  Intermediates = Some (add_certs rest {})\<rparr> of
                       Inl err \<Rightarrow> Inl (Err err)
                     | Inr verifiedChains \<Rightarrow> Inr ())))"

section \<open>Endpoints\<close>

datatype Endpoint =
    defaultEndpoint (addr: string)
  | astraEndpoint (addr: string) (tlsConfigPtr: nat)

text \<open>
  \<open>astraEndpoint.Key\<close> reads the server name through the endpoint's pointer, in the
  store of the moment of the call.
\<close>

fun Key :: "heap \<Rightarrow> Endpoint \<Rightarrow> failure + string" where
  "Key h (defaultEndpoint a) = Inr a"
| "Key h (astraEndpoint a p) =
     (if p < length h then Inr (a @ '':'' @ ServerName (h ! p))
      else Inl (Panic NilDereference))"

fun String :: "heap \<Rightarrow> Endpoint \<Rightarrow> failure + string" where
  "String h (defaultEndpoint a) = Key h (defaultEndpoint a)"
| "String h (astraEndpoint a p) = Key h (astraEndpoint a p)"

fun IsResolved :: "Endpoint \<Rightarrow> bool" where
  "IsResolved (defaultEndpoint a) = True"
| "IsResolved (astraEndpoint a p) = False"

fun Addr :: "Endpoint \<Rightarrow> string" where
  "Addr (defaultEndpoint a) = a"
| "Addr (astraEndpoint a p) = a"

fun TlsConfig :: "Endpoint \<Rightarrow> nat option" where
  "TlsConfig (defaultEndpoint a) = None"
| "TlsConfig (astraEndpoint a p) = Some p"

datatype EndpointFactory =
    defaultEndpointFactory (contactPoints: "Endpoint list") (defaultPort: int)
  | astraResolver (contactPoints: "Endpoint list") (resolver_host: string) (resolver_bundle: Bundle)

section \<open>The direct strategy\<close>

text \<open>
  \<open>net.LookupHost\<close> and \<open>strconv.Atoi\<close> of the standard library are parameters \<open>L\<close>
  and \<open>A\<close>.
\<close>

type_synonym resolver = "string \<Rightarrow> error + string list"

type_synonym atoi = "string \<Rightarrow> error + int"

fun resolve_loop :: "resolver \<Rightarrow> atoi \<Rightarrow> int \<Rightarrow> string list \<Rightarrow> Endpoint list \<Rightarrow> failure + Endpoint list" where
  "resolve_loop L A dp [] endpoints = Inr endpoints"
| "resolve_loop L A dp (cp # cps) endpoints =
     (case Split_colon cp of
        [] \<Rightarrow> Inl (Panic IndexOutOfRange)
      | part0 # parts \<Rightarrow>
          (case L part0 of
             Inl err \<Rightarrow>
               Inl (Err (ErrorString (''unable to resolve contact point '' @ cp @ '': '' @ Error err)))
           | Inr addrs \<Rightarrow>
               (case (case parts of [] \<Rightarrow> Inr dp | part1 # _ \<Rightarrow> A part1) of
                  Inl err \<Rightarrow>
                    Inl (Err (ErrorString (''contact point '' @ cp @ '' has invalid port: '' @ Error err)))
                | Inr p \<Rightarrow>
                    resolve_loop L A dp cps
                      (endpoints @ map (\<lambda>a. defaultEndpoint (a @ '':'' @ format_int p)) addrs))))"

definition ResolveWithDefaultPort :: "resolver \<Rightarrow> atoi \<Rightarrow> string list \<Rightarrow> int \<Rightarrow> failure + EndpointFactory" where
  "ResolveWithDefaultPort L A cps dp =
     (case resolve_loop L A dp cps [] of
        Inl f \<Rightarrow> Inl f
      | Inr endpoints \<Rightarrow> Inr (defaultEndpointFactory endpoints dp))"

definition Resolve :: "resolver \<Rightarrow> atoi \<Rightarrow> string list \<Rightarrow> failure + EndpointFactory" where
  "Resolve L A cps = ResolveWithDefaultPort L A cps 9042"

text \<open>
  \<open>defaultEndpointFactory.Create\<close>.  A \<open>peer\<close> lookup that fails with
  \<open>ColumnNameNotFound\<close> leaves \<open>peer\<close> nil; the type assertions \<open>.(net.IP)\<close> panic on
  a value that is not an address, the nil of a missing \<open>peer\<close> included.
\<close>

definition default_Create :: "decoder \<Rightarrow> int \<Rightarrow> Row \<Rightarrow> failure + Endpoint" where
  "default_Create D dp r =
     (case (case ByName D r ''peer'' of
              Inl (Panic x) \<Rightarrow> Inl (Panic x)
            | Inl (Err err) \<Rightarrow> if err \<noteq> ColumnNameNotFound then Inl (Err err) else Inr VNil
            | Inr v \<Rightarrow> Inr v) of
        Inl f \<Rightarrow> Inl f
      | Inr peer \<Rightarrow>
          (case ByName D r ''rpc_address'' of
             Inl f \<Rightarrow> Inl f
           | Inr rpcAddress \<Rightarrow>
               (case rpcAddress of
                  VIP a \<Rightarrow>
                    if IP_Equal a IPv4zero \<or> IP_Equal a IPv6zero
                    then (case peer of
                            VIP p \<Rightarrow> Inr (defaultEndpoint (IP_String p @ '':'' @ format_int dp))
                          | _ \<Rightarrow> Inl (Panic InterfaceConversion))
                    else Inr (defaultEndpoint (IP_String a @ '':'' @ format_int dp))
                | _ \<Rightarrow> Inl (Panic InterfaceConversion))))"

section \<open>The cloud strategy\<close>

record contactInfo =
  TypeName :: string
  LocalDc :: string
  SniProxyAddress :: string
  ContactPoints :: "string list"

record astraMetadata =
  Version :: int
  Region :: string
  ContactInfo :: contactInfo

text \<open>
  The network and \<open>encoding/json\<close> are parameters.  \<open>G\<close> is \<open>http.Client.Get\<close>: a
  transport error, or a response with its status code and with what reading its body to
  the end gives.  \<open>U\<close> is \<open>json.Unmarshal\<close> into the nil pointer \<open>metadata\<close>: an
  error, or the pointer afterwards (\<open>None\<close>: still nil, as after the document \<open>null\<close>).
\<close>

record Response =
  StatusCode :: int
  Body :: "error + string"

type_synonym http_get = "string \<Rightarrow> error + Response"

type_synonym unmarshal = "string \<Rightarrow> error + astraMetadata option"

text \<open>The loop of \<open>ResolveAstra\<close>: one endpoint and one configuration per contact point.\<close>

fun astra_endpoints :: "Bundle \<Rightarrow> string \<Rightarrow> string list \<Rightarrow> heap \<Rightarrow> (failure + Endpoint list) \<times> heap" where
  "astra_endpoints bundle proxy [] h = (Inr [], h)"
| "astra_endpoints bundle proxy (cp # cps) h =
     (case copyTLSConfig bundle cp h of
        (Inl f, h1) \<Rightarrow> (Inl f, h1)
      | (Inr p, h1) \<Rightarrow>
          (case astra_endpoints bundle proxy cps h1 of
             (Inl f, h2) \<Rightarrow> (Inl f, h2)
           | (Inr endpoints, h2) \<Rightarrow> (Inr (astraEndpoint proxy p # endpoints), h2)))"

definition metadata_url :: "Bundle \<Rightarrow> string" where
  "metadata_url bundle = ''https://'' @ Host bundle @ '':'' @ format_int (Port bundle) @ ''/metadata''"

definition ResolveAstra :: "http_get \<Rightarrow> unmarshal \<Rightarrow> Bundle \<Rightarrow> heap \<Rightarrow> (failure + EndpointFactory) \<times> heap" where
  "ResolveAstra G U bundle h =
     (case Bundle_TLSConfig bundle h of
        (clientConfig, h0) \<Rightarrow>
          (case G (metadata_url bundle) of
             Inl err \<Rightarrow>
               (Inl (Err (ErrorString (''unable to get metadata from '' @ metadata_url bundle @
                                       '': '' @ Error err))), h0)
           | Inr response \<Rightarrow>
               (case Body response of
                  Inl err \<Rightarrow> (Inl (Err err), h0)
                | Inr body \<Rightarrow>
                    (case U body of
                       Inl err \<Rightarrow> (Inl (Err err), h0)
                     | Inr None \<Rightarrow> (Inl (Panic NilDereference), h0)
                     | Inr (Some metadata) \<Rightarrow>
                         (case astra_endpoints bundle (SniProxyAddress (ContactInfo metadata))
                                 (ContactPoints (ContactInfo metadata)) h0 of
                            (Inl f, h1) \<Rightarrow> (Inl f, h1)
                          | (Inr endpoints, h1) \<Rightarrow>
                              (Inr (astraResolver endpoints
                                      (SniProxyAddress (ContactInfo metadata)) bundle), h1))))))"

text \<open>\<open>astraResolver.Create\<close>; the type assertion \<open>.(primitive.UUID)\<close> panics on any other value.\<close>

definition astra_Create :: "decoder \<Rightarrow> string \<Rightarrow> Bundle \<Rightarrow> Row \<Rightarrow> heap \<Rightarrow> (failure + Endpoint) \<times> heap" where
  "astra_Create D a_host a_bundle r h =
     (case ByName D r ''host_id'' of
        Inl f \<Rightarrow> (Inl f, h)
      | Inr hostId \<Rightarrow>
          (case hostId of
             VUUID uuid \<Rightarrow>
               (case copyTLSConfig a_bundle (UUID_String uuid) h of
                  (Inl f, h1) \<Rightarrow> (Inl f, h1)
                | (Inr p, h1) \<Rightarrow> (Inr (astraEndpoint a_host p), h1))
           | _ \<Rightarrow> (Inl (Panic InterfaceConversion), h)))"

text \<open>The two methods of the \<open>EndpointFactory\<close> interface.\<close>

definition Factory_ContactPoints :: "EndpointFactory \<Rightarrow> Endpoint list" where
  "Factory_ContactPoints f = contactPoints f"

fun Create :: "decoder \<Rightarrow> EndpointFactory \<Rightarrow> Row \<Rightarrow> heap \<Rightarrow> (failure + Endpoint) \<times> heap" where
  "Create D (defaultEndpointFactory cps dp) r h = (default_Create D dp r, h)"
| "Create D (astraResolver cps a_host a_bundle) r h = astra_Create D a_host a_bundle r h"

section \<open>Concrete inputs\<close>

text \<open>
  A decoder to stand for \<open>DecodeType\<close> at concrete inputs: an address column holds 4 or
  16 bytes, an identifier column 16 bytes, a null column decodes to nil.
\<close>

definition decode_sample :: decoder where
  "decode_sample t v c =
     (case c of
        None \<Rightarrow> Inr VNil
      | Some bs \<Rightarrow>
          (case t of
             Inet \<Rightarrow> if length bs = 4 \<or> length bs = 16 then Inr (VIP bs)
                     else Inl (ErrorString ''cannot decode inet'')
           | Uuid \<Rightarrow> if length bs = 16 then Inr (VUUID bs)
                     else Inl (ErrorString ''cannot decode uuid'')
           | _ \<Rightarrow> Inr (VOther ''other'')))"

definition column :: "string \<Rightarrow> DataType \<Rightarrow> ColumnMetadata" where
  "column n t = \<lparr>Keyspace = ''system'', Table = ''peers'', Name = n, Type = t\<rparr>"

definition uuid_a :: "byte list" where
  "uuid_a = [0, 1, 2, 3, 4, 5, 6, 7, 8, 9, 10, 11, 12, 13, 14, 15]"

definition uuid_b :: "byte list" where
  "uuid_b = [0, 1, 2, 3, 4, 5, 6, 7, 8, 9, 10, 11, 12, 13, 14, 255]"

text \<open>A result of \<open>system.peers\<close>: columns \<open>peer\<close>, \<open>rpc_address\<close>, \<open>host_id\<close>; three rows.\<close>

definition peers_result :: RowsResult where
  "peers_result =
     \<lparr>Metadata = \<lparr>Columns = [column ''peer'' Inet, column ''rpc_address'' Inet,
                              column ''host_id'' Uuid]\<rparr>,
      Data = [[Some [10, 0, 0, 5], Some [0, 0, 0, 0], Some uuid_a],
              [Some [10, 0, 0, 5], Some [10, 0, 0, 9], Some uuid_b],
              [Some [1, 2, 3], Some [10, 0, 0, 9], Some uuid_b]]\<rparr>"

definition peers_row :: "nat \<Rightarrow> Row" where
  "peers_row i = \<lparr>resultSet = NewResultSet peers_result 4, row = Data peers_result ! i\<rparr>"

text \<open>A result without the column \<open>peer\<close>, and one without \<open>rpc_address\<close>.\<close>

definition no_peer_result :: RowsResult where
  "no_peer_result =
     \<lparr>Metadata = \<lparr>Columns = [column ''rpc_address'' Inet, column ''host_id'' Uuid]\<rparr>,
      Data = [[Some [10, 0, 0, 9], Some uuid_a], [Some [0, 0, 0, 0], Some uuid_b]]\<rparr>"

definition no_peer_row :: "nat \<Rightarrow> Row" where
  "no_peer_row i = \<lparr>resultSet = NewResultSet no_peer_result 4, row = Data no_peer_result ! i\<rparr>"

definition no_rpc_result :: RowsResult where
  "no_rpc_result =
     \<lparr>Metadata = \<lparr>Columns = [column ''peer'' Inet, column ''host_id'' Uuid]\<rparr>,
      Data = [[Some [10, 0, 0, 5], Some uuid_a]]\<rparr>"

definition no_rpc_row :: Row where
  "no_rpc_row = \<lparr>resultSet = NewResultSet no_rpc_result 4, row = Data no_rpc_result ! 0\<rparr>"

text \<open>A result in which the name \<open>a\<close> occurs at positions 0 and 2.\<close>

definition duplicate_result :: RowsResult where
  "duplicate_result =
     \<lparr>Metadata = \<lparr>Columns = [column ''a'' Inet, column ''b'' Uuid, column ''a'' Inet]\<rparr>,
      Data = [[Some [10, 0, 0, 1], Some uuid_a, Some [10, 0, 0, 2]]]\<rparr>"

definition duplicate_row :: Row where
  "duplicate_row = \<lparr>resultSet = NewResultSet duplicate_result 4, row = Data duplicate_result ! 0\<rparr>"

text \<open>A bundle whose base configuration is the only object of the store.\<close>

definition base_config :: tls_Config where
  "base_config =
     \<lparr>RootCAs = Some {Certificate [1]}, Certificates = [], ServerName = [],
      InsecureSkipVerify = False, VerifyPeerCertificate = None\<rparr>"

definition bundle0 :: Bundle where
  "bundle0 = \<lparr>host = ''db.example.com'', port = 29080, tlsConfig = 0\<rparr>"

definition heap0 :: heap where
  "heap0 = [base_config]"

text \<open>
  Three bodies and what \<open>json.Unmarshal\<close> makes of them: a document with two contact
  points; the empty object \<open>{}\<close>, where every field keeps its zero value; and the
  truncated document \<open>{\<close>, the only other body used below, which is rejected.
\<close>

definition metadata_json :: string where
  \<open>metadata_json =
     ''{"contact_info":{"sni_proxy_address":"proxy.example.com:29042","contact_points":["id-1","id-2"]}}''\<close>

definition metadata0 :: astraMetadata where
  "metadata0 =
     \<lparr>Version = 0, Region = [],
      ContactInfo = \<lparr>TypeName = [], LocalDc = [],
                      SniProxyAddress = ''proxy.example.com:29042'',
                      ContactPoints = [''id-1'', ''id-2'']\<rparr>\<rparr>"

definition zero_metadata :: astraMetadata where
  "zero_metadata =
     \<lparr>Version = 0, Region = [],
      ContactInfo = \<lparr>TypeName = [], LocalDc = [], SniProxyAddress = [], ContactPoints = []\<rparr>\<rparr>"

definition unmarshal_sample :: unmarshal where
  "unmarshal_sample body =
     (if body = metadata_json then Inr (Some metadata0)
      else if body = ''{}'' then Inr (Some zero_metadata)
      else Inl (ErrorString ''unexpected end of JSON input''))"

definition respond :: "int \<Rightarrow> string \<Rightarrow> http_get" where
  "respond status body url = Inr \<lparr>StatusCode = status, Body = Inr body\<rparr>"

text \<open>The bootstrap in that store, and what it returns.\<close>

definition node_config :: "string \<Rightarrow> nat \<Rightarrow> tls_Config" where
  "node_config n p =
     base_config\<lparr>ServerName := n, InsecureSkipVerify := True,
                 VerifyPeerCertificate := Some (VerifyPeerCertificate_func p bundle0)\<rparr>"

definition boot_factory :: EndpointFactory where
  "boot_factory =
     astraResolver [astraEndpoint ''proxy.example.com:29042'' 2,
                    astraEndpoint ''proxy.example.com:29042'' 3]
       ''proxy.example.com:29042'' bundle0"

definition boot_heap :: heap where
  "boot_heap = [base_config, base_config, node_config ''id-1'' 2, node_config ''id-2'' 3]"

text \<open>
  A resolver that answers with the name itself, as \<open>net.LookupHost\<close> does for a
  literal address, and \<open>strconv.Atoi\<close> at the one text used below.
\<close>

definition lookup_literal :: resolver where
  "lookup_literal name = Inr [name]"

definition atoi_sample :: atoi where
  "atoi_sample s = (if s = ''9043'' then Inr 9043 else Inl (ErrorString ''invalid syntax''))"

text \<open>
  A parser and a verifier to stand for the standard library at concrete inputs.  The
  empty byte string does not parse.  The first byte of a certificate names its issuer:
  a leaf verifies when the expected name is \<open>db.example.com\<close> and the certificate
  made of that byte alone is one of the roots.
\<close>

definition parse_sample :: parser where
  "parse_sample bs =
     (if bs = [] then Inl (ErrorString ''x509: malformed certificate'')
      else Inr (Certificate bs))"

definition verify_sample :: verifier where
  "verify_sample leaf opts =
     (if DNSName opts = ''db.example.com'' \<and>
         (case Roots opts of
            None \<Rightarrow> False
          | Some roots \<Rightarrow> Certificate (take 1 (Raw leaf)) \<in> roots)
      then Inr [[leaf, Certificate (take 1 (Raw leaf))]]
      else Inl (ErrorString ''x509: certificate signed by unknown authority''))"

text \<open>A transport that fails with the given message.\<close>

definition refuse :: "string \<Rightarrow> http_get" where
  "refuse msg url = Inl (ErrorString msg)"

section \<open>The name index\<close>

lemma index_columns_absent:
  "n \<notin> Name ` set columns \<Longrightarrow> index_columns columns i m n = m n"
  by (induction columns arbitrary: i m) auto

lemma index_columns_last:
  "k < length columns \<Longrightarrow> Name (columns ! k) = n \<Longrightarrow>
   (\<forall>j. k < j \<and> j < length columns \<longrightarrow> Name (columns ! j) \<noteq> n) \<Longrightarrow>
   index_columns columns i m n = Some (i + int k)"
proof (induction columns arbitrary: k i m)
  case Nil
  then show ?case by simp
next
  case (Cons c cs)
  show ?case
  proof (cases k)
    case 0
    have "n \<notin> Name ` set cs"
    proof
      assume "n \<in> Name ` set cs"
      then obtain j where j: "j < length cs" "Name (cs ! j) = n"
        by (auto simp: in_set_conv_nth)
      with Cons.prems(3) 0 have "Name ((c # cs) ! Suc j) \<noteq> n"
        by (metis Suc_less_eq length_Cons zero_less_Suc)
      with j show False by simp
    qed
    then have "index_columns cs (i + 1) (m(Name c \<mapsto> i)) n = (m(Name c \<mapsto> i)) n"
      by (rule index_columns_absent)
    with 0 Cons.prems(2) show ?thesis by simp
  next
    case (Suc k')
    have later: "\<forall>j. k' < j \<and> j < length cs \<longrightarrow> Name (cs ! j) \<noteq> n"
    proof (intro allI impI)
      fix j assume "k' < j \<and> j < length cs"
      with Cons.prems(3) Suc have "Name ((c # cs) ! Suc j) \<noteq> n"
        by (metis Suc_less_eq length_Cons)
      then show "Name (cs ! j) \<noteq> n" by simp
    qed
    from Cons.prems(1,2) Suc have "k' < length cs" "Name (cs ! k') = n" by auto
    then have "index_columns cs (i + 1) (m(Name c \<mapsto> i)) n = Some (i + 1 + int k')"
      using later by (rule Cons.IH)
    moreover have "index_columns (c # cs) i m n = index_columns cs (i + 1) (m(Name c \<mapsto> i)) n"
      by (simp only: index_columns.simps)
    ultimately show ?thesis using Suc by (simp only: of_nat_Suc) simp
  qed
qed

lemma distinct_names_later:
  assumes "distinct (map Name columns)" "k < length columns"
  shows "\<forall>j. k < j \<and> j < length columns \<longrightarrow> Name (columns ! j) \<noteq> Name (columns ! k)"
proof (intro allI impI)
  fix j assume j: "k < j \<and> j < length columns"
  with assms have "map Name columns ! j \<noteq> map Name columns ! k"
    by (metis length_map less_imp_neq nth_eq_iff_index_eq)
  with j assms show "Name (columns ! j) \<noteq> Name (columns ! k)" by simp
qed

lemma index_columns_range:
  "index_columns columns i m n = Some k \<Longrightarrow>
   m n = Some k \<or> (i \<le> k \<and> k < i + int (length columns))"
proof (induction columns arbitrary: i m)
  case Nil
  then show ?case by simp
next
  case (Cons c cs)
  from Cons.prems have "index_columns cs (i + 1) (m(Name c \<mapsto> i)) n = Some k"
    by simp
  from Cons.IH [OF this] show ?case
    by (auto split: if_splits)
qed

lemma absent_ByName:
  "n \<notin> Name ` set (Columns (Metadata rows)) \<Longrightarrow>
   ByName D \<lparr>resultSet = NewResultSet rows v, row = cols\<rparr> n = Inl (Err ColumnNameNotFound)"
  by (simp add: ByName_def NewResultSet_def index_columns_absent)

lemma ByName_no_panic:
  assumes "length cols = length (Columns (Metadata rows))"
  shows "ByName D \<lparr>resultSet = NewResultSet rows v, row = cols\<rparr> n \<noteq> Inl (Panic x)"
proof (cases "index_columns (Columns (Metadata rows)) 0 Map.empty n")
  case None
  then show ?thesis by (simp add: ByName_def NewResultSet_def)
next
  case (Some k)
  from index_columns_range [OF this]
  have "0 \<le> k \<and> k < int (length (Columns (Metadata rows)))" by simp
  with Some assms show ?thesis
    by (simp add: ByName_def NewResultSet_def ByPos_def split: sum.splits)
qed

lemma last_occurrence:
  assumes "n \<in> Name ` set columns"
  shows "\<exists>k < length columns. Name (columns ! k) = n \<and>
           (\<forall>j. k < j \<and> j < length columns \<longrightarrow> Name (columns ! j) \<noteq> n)"
proof -
  let ?S = "{k. k < length columns \<and> Name (columns ! k) = n}"
  have fin: "finite ?S" by simp
  from assms have ne: "?S \<noteq> {}" by (auto simp: in_set_conv_nth)
  from Max_in [OF fin ne] have m: "Max ?S < length columns" "Name (columns ! Max ?S) = n"
    by auto
  have "Name (columns ! j) \<noteq> n" if "Max ?S < j" "j < length columns" for j
  proof
    assume "Name (columns ! j) = n"
    with that have "j \<in> ?S" by simp
    from Max_ge [OF fin this] that show False by simp
  qed
  with m show ?thesis by blast
qed


text \<open>
  C8.  For every result, protocol version and row of the result set built by
  \<open>NewResultSet\<close>: \<open>ByName\<close> of a name present in the metadata returns exactly what
  \<open>ByPos\<close> returns at a position of a column of that name (the same value, the same
  error, or the same panic on a row too short); and in a result whose column names are
  unique, \<open>ByName\<close> of the name of column \<open>k\<close> returns what \<open>ByPos k\<close> returns, for
  every position \<open>k\<close> of the metadata.
\<close>

theorem ByName_eq_ByPos:
  "(n \<in> Name ` set (Columns (Metadata rows)) \<longrightarrow>
      (\<exists>k < length (Columns (Metadata rows)).
         Name (Columns (Metadata rows) ! k) = n \<and>
         ByName D \<lparr>resultSet = NewResultSet rows v, row = cols\<rparr> n
         = ByPos D \<lparr>resultSet = NewResultSet rows v, row = cols\<rparr> (int k)))
   \<and> (distinct (map Name (Columns (Metadata rows))) \<and> k < length (Columns (Metadata rows)) \<longrightarrow>
      ByName D \<lparr>resultSet = NewResultSet rows v, row = cols\<rparr> (Name (Columns (Metadata rows) ! k))
      = ByPos D \<lparr>resultSet = NewResultSet rows v, row = cols\<rparr> (int k))"
proof (intro conjI impI)
  assume "n \<in> Name ` set (Columns (Metadata rows))"
  from last_occurrence [OF this] obtain k where
    k: "k < length (Columns (Metadata rows))" "Name (Columns (Metadata rows) ! k) = n"
    "\<forall>j. k < j \<and> j < length (Columns (Metadata rows)) \<longrightarrow> Name (Columns (Metadata rows) ! j) \<noteq> n"
    by blast
  then have "index_columns (Columns (Metadata rows)) 0 Map.empty n = Some (0 + int k)"
    by (rule index_columns_last)
  then have "ByName D \<lparr>resultSet = NewResultSet rows v, row = cols\<rparr> n
         = ByPos D \<lparr>resultSet = NewResultSet rows v, row = cols\<rparr> (int k)"
    by (simp add: ByName_def NewResultSet_def)
  with k(1,2) show "\<exists>k < length (Columns (Metadata rows)).
         Name (Columns (Metadata rows) ! k) = n \<and>
         ByName D \<lparr>resultSet = NewResultSet rows v, row = cols\<rparr> n
         = ByPos D \<lparr>resultSet = NewResultSet rows v, row = cols\<rparr> (int k)"
    by blast
next
  assume a: "distinct (map Name (Columns (Metadata rows))) \<and> k < length (Columns (Metadata rows))"
  then have "index_columns (Columns (Metadata rows)) 0 Map.empty (Name (Columns (Metadata rows) ! k))
        = Some (0 + int k)"
    using distinct_names_later [of "Columns (Metadata rows)" k]
    by (intro index_columns_last) auto
  then show "ByName D \<lparr>resultSet = NewResultSet rows v, row = cols\<rparr> (Name (Columns (Metadata rows) ! k))
      = ByPos D \<lparr>resultSet = NewResultSet rows v, row = cols\<rparr> (int k)"
    by (simp add: ByName_def NewResultSet_def)
qed


lemma peers_lookup:
  "ByName decode_sample (peers_row 0) ''rpc_address'' = Inr (VIP [0, 0, 0, 0])"
  "ByName decode_sample (peers_row 0) ''peer'' = Inr (VIP [10, 0, 0, 5])"
  "ByName decode_sample (peers_row 1) ''rpc_address'' = Inr (VIP [10, 0, 0, 9])"
  "ByName decode_sample (peers_row 1) ''peer'' = Inr (VIP [10, 0, 0, 5])"
  by (simp_all add: peers_row_def peers_result_def ByName_def NewResultSet_def column_def
      ByPos_def decode_sample_def)

theorem ByName_eq_ByPos_witness:
  "distinct (map Name (Columns (Metadata peers_result))) \<and>
   1 < length (Columns (Metadata peers_result)) \<and>
   Name (Columns (Metadata peers_result) ! 1) = ''rpc_address'' \<and>
   ByName decode_sample (peers_row 1) ''rpc_address'' = ByPos decode_sample (peers_row 1) 1 \<and>
   ByPos decode_sample (peers_row 1) 1 = Inr (VIP [10, 0, 0, 9])"
proof -
  have 1: "distinct (map Name (Columns (Metadata peers_result)))"
    by (simp add: peers_result_def column_def)
  have 2: "1 < length (Columns (Metadata peers_result))"
    by (simp add: peers_result_def)
  have 3: "Name (Columns (Metadata peers_result) ! 1) = ''rpc_address''"
    by (simp add: peers_result_def column_def)
  from ByName_eq_ByPos [of _ peers_result decode_sample 4 "Data peers_result ! 1" 1] 1 2
  have "ByName decode_sample \<lparr>resultSet = NewResultSet peers_result 4, row = Data peers_result ! 1\<rparr>
          (Name (Columns (Metadata peers_result) ! 1))
        = ByPos decode_sample \<lparr>resultSet = NewResultSet peers_result 4, row = Data peers_result ! 1\<rparr> (int 1)"
    by blast
  then have 4: "ByName decode_sample (peers_row 1) ''rpc_address'' = ByPos decode_sample (peers_row 1) 1"
    unfolding 3 by (simp add: peers_row_def)
  from 1 2 3 4 peers_lookup(3) show ?thesis by simp
qed

text \<open>
  C9.  When a name occurs several times in the metadata, \<open>NewResultSet\<close> (a total
  function, with no error to return) maps it to the position \<open>k\<close> of its last
  occurrence, and \<open>ByName\<close> decodes column \<open>k\<close> of the row with the type of column
  \<open>k\<close>.
\<close>

theorem index_last_wins:
  assumes "k < length (Columns (Metadata rows))"
    and "Name (Columns (Metadata rows) ! k) = n"
    and "\<forall>j. k < j \<and> j < length (Columns (Metadata rows)) \<longrightarrow> Name (Columns (Metadata rows) ! j) \<noteq> n"
  shows "columnIndexes (NewResultSet rows v) n = Some (int k) \<and>
         ByName D \<lparr>resultSet = NewResultSet rows v, row = cols\<rparr> n
         = (if k < length cols
            then (case D (Type (Columns (Metadata rows) ! k)) v (cols ! k) of
                    Inl err \<Rightarrow> Inl (Err err)
                  | Inr x \<Rightarrow> Inr x)
            else Inl (Panic IndexOutOfRange))"
proof -
  have "index_columns (Columns (Metadata rows)) 0 Map.empty n = Some (0 + int k)"
    using assms by (rule index_columns_last)
  then show ?thesis using assms(1)
    by (simp add: ByName_def NewResultSet_def ByPos_def)
qed

theorem index_last_wins_witness:
  "columnIndexes (NewResultSet duplicate_result 4) ''a'' = Some 2 \<and>
   ByName decode_sample duplicate_row ''a'' = Inr (VIP [10, 0, 0, 2]) \<and>
   ByPos decode_sample duplicate_row 0 = Inr (VIP [10, 0, 0, 1])"
proof -
  have 1: "2 < length (Columns (Metadata duplicate_result))"
    by (simp add: duplicate_result_def)
  have 2: "Name (Columns (Metadata duplicate_result) ! 2) = ''a''"
    by (simp add: duplicate_result_def column_def)
  have 3: "\<forall>j. 2 < j \<and> j < length (Columns (Metadata duplicate_result)) \<longrightarrow>
             Name (Columns (Metadata duplicate_result) ! j) \<noteq> ''a''"
    by (auto simp add: duplicate_result_def)
  have 4: "ByPos decode_sample duplicate_row 0 = Inr (VIP [10, 0, 0, 1])"
    by (simp add: ByPos_def duplicate_row_def duplicate_result_def NewResultSet_def
        column_def decode_sample_def)
  from index_last_wins [OF 1 2 3, of 4 decode_sample "Data duplicate_result ! 0"] 4
  show ?thesis
    by (simp add: duplicate_row_def duplicate_result_def column_def decode_sample_def)
qed

section \<open>The direct strategy: \<open>Create\<close>\<close>

text \<open>The test of \<open>Create\<close> holds of exactly three byte slices.\<close>

lemma unspecified_iff:
  "(IP_Equal a IPv4zero \<or> IP_Equal a IPv6zero) \<longleftrightarrow>
   (a = [0, 0, 0, 0] \<or> a = IPv4zero \<or> a = IPv6zero)"
  by (auto simp: IP_Equal_def IPv4zero_def IPv6zero_def v4InV6Prefix_def)

text \<open>
  C3.  When \<open>rpc_address\<close> decodes to the unspecified address (four zero bytes, or
  sixteen bytes that are the IPv4 or the IPv6 zero address) and \<open>peer\<close> decodes to an
  address, the endpoint's address is the text of \<open>peer\<close>, a colon and the default port.
  When \<open>rpc_address\<close> decodes to any other address, it is the text of \<open>rpc_address\<close>,
  a colon and the default port, whatever value \<open>peer\<close> decodes to and also when the
  column \<open>peer\<close> is missing.  With port 9042, \<open>rpc_address = 0.0.0.0\<close> and
  \<open>peer = 10.0.0.5\<close> give \<open>10.0.0.5:9042\<close>, and \<open>rpc_address = 10.0.0.9\<close> gives
  \<open>10.0.0.9:9042\<close>.
\<close>

theorem Create_address:
  "(ByName D r ''rpc_address'' = Inr (VIP a) \<and> ByName D r ''peer'' = Inr (VIP p) \<and>
      (a = [0, 0, 0, 0] \<or> a = IPv4zero \<or> a = IPv6zero)
    \<longrightarrow> default_Create D dp r = Inr (defaultEndpoint (IP_String p @ '':'' @ format_int dp)))
   \<and> (ByName D r ''rpc_address'' = Inr (VIP a) \<and>
      (ByName D r ''peer'' = Inr pv \<or> ByName D r ''peer'' = Inl (Err ColumnNameNotFound)) \<and>
      \<not> (a = [0, 0, 0, 0] \<or> a = IPv4zero \<or> a = IPv6zero)
    \<longrightarrow> default_Create D dp r = Inr (defaultEndpoint (IP_String a @ '':'' @ format_int dp)))
   \<and> (ByName D r ''rpc_address'' = Inr (VIP [0, 0, 0, 0]) \<and>
      ByName D r ''peer'' = Inr (VIP [10, 0, 0, 5])
    \<longrightarrow> default_Create D 9042 r = Inr (defaultEndpoint ''10.0.0.5:9042''))
   \<and> (ByName D r ''rpc_address'' = Inr (VIP [10, 0, 0, 9]) \<and>
      (ByName D r ''peer'' = Inr pv \<or> ByName D r ''peer'' = Inl (Err ColumnNameNotFound))
    \<longrightarrow> default_Create D 9042 r = Inr (defaultEndpoint ''10.0.0.9:9042''))"
proof -
  have port: "format_int 9042 = ''9042''"
    by (simp add: format_int_def)
  have ip5: "IP_String [10, 0, 0, 5] = ''10.0.0.5''"
    by (simp add: IP_String_def To4_def)
  have ip9: "IP_String [10, 0, 0, 9] = ''10.0.0.9''"
    by (simp add: IP_String_def To4_def)
  have z: "IP_Equal [0, 0, 0, 0] IPv4zero"
    by (simp add: IP_Equal_def IPv4zero_def v4InV6Prefix_def)
  have nz: "\<not> (IP_Equal [10, 0, 0, 9] IPv4zero \<or> IP_Equal [10, 0, 0, 9] IPv6zero)"
    unfolding unspecified_iff by (simp add: IPv4zero_def IPv6zero_def v4InV6Prefix_def)
  have 1: "default_Create D dp r = Inr (defaultEndpoint (IP_String p @ '':'' @ format_int dp))"
    if "ByName D r ''rpc_address'' = Inr (VIP a)" "ByName D r ''peer'' = Inr (VIP p)"
       "IP_Equal a IPv4zero \<or> IP_Equal a IPv6zero" for a p dp
    using that by (auto simp add: default_Create_def)
  have 2: "default_Create D dp r = Inr (defaultEndpoint (IP_String a @ '':'' @ format_int dp))"
    if "ByName D r ''rpc_address'' = Inr (VIP a)"
       "ByName D r ''peer'' = Inr pv \<or> ByName D r ''peer'' = Inl (Err ColumnNameNotFound)"
       "\<not> (IP_Equal a IPv4zero \<or> IP_Equal a IPv6zero)" for a pv dp
    using that by (auto simp add: default_Create_def)
  show ?thesis
  proof (intro conjI impI)
    assume "ByName D r ''rpc_address'' = Inr (VIP a) \<and> ByName D r ''peer'' = Inr (VIP p) \<and>
      (a = [0, 0, 0, 0] \<or> a = IPv4zero \<or> a = IPv6zero)"
    then show "default_Create D dp r = Inr (defaultEndpoint (IP_String p @ '':'' @ format_int dp))"
      using 1 [of a p dp] unspecified_iff [of a] by blast
  next
    assume "ByName D r ''rpc_address'' = Inr (VIP a) \<and>
      (ByName D r ''peer'' = Inr pv \<or> ByName D r ''peer'' = Inl (Err ColumnNameNotFound)) \<and>
      \<not> (a = [0, 0, 0, 0] \<or> a = IPv4zero \<or> a = IPv6zero)"
    then show "default_Create D dp r = Inr (defaultEndpoint (IP_String a @ '':'' @ format_int dp))"
      using 2 [of a pv dp] unspecified_iff [of a] by blast
  next
    assume "ByName D r ''rpc_address'' = Inr (VIP [0, 0, 0, 0]) \<and>
      ByName D r ''peer'' = Inr (VIP [10, 0, 0, 5])"
    then show "default_Create D 9042 r = Inr (defaultEndpoint ''10.0.0.5:9042'')"
      using 1 [of "[0, 0, 0, 0]" "[10, 0, 0, 5]" 9042] z by (simp add: port ip5)
  next
    assume "ByName D r ''rpc_address'' = Inr (VIP [10, 0, 0, 9]) \<and>
      (ByName D r ''peer'' = Inr pv \<or> ByName D r ''peer'' = Inl (Err ColumnNameNotFound))"
    then show "default_Create D 9042 r = Inr (defaultEndpoint ''10.0.0.9:9042'')"
      using 2 [of "[10, 0, 0, 9]" pv 9042] nz by (simp add: port ip9)
  qed
qed

theorem Create_address_witness:
  "ByName decode_sample (peers_row 0) ''rpc_address'' = Inr (VIP [0, 0, 0, 0]) \<and>
   ByName decode_sample (peers_row 0) ''peer'' = Inr (VIP [10, 0, 0, 5]) \<and>
   default_Create decode_sample 9042 (peers_row 0) = Inr (defaultEndpoint ''10.0.0.5:9042'') \<and>
   ByName decode_sample (peers_row 1) ''rpc_address'' = Inr (VIP [10, 0, 0, 9]) \<and>
   ByName decode_sample (peers_row 1) ''peer'' = Inr (VIP [10, 0, 0, 5]) \<and>
   default_Create decode_sample 9042 (peers_row 1) = Inr (defaultEndpoint ''10.0.0.9:9042'')"
proof -
  have a: "default_Create decode_sample 9042 (peers_row 0) = Inr (defaultEndpoint ''10.0.0.5:9042'')"
    using Create_address [of decode_sample "peers_row 0" "[0, 0, 0, 0]" "[10, 0, 0, 5]" 9042 VNil]
      peers_lookup(1,2)
    by blast
  have b: "default_Create decode_sample 9042 (peers_row 1) = Inr (defaultEndpoint ''10.0.0.9:9042'')"
    using Create_address [of decode_sample "peers_row 1" "[10, 0, 0, 9]" "[10, 0, 0, 5]" 9042
        "VIP [10, 0, 0, 5]"]
      peers_lookup(3,4)
    by blast
  from a b peers_lookup show ?thesis by blast
qed

text \<open>
  C7.  When the metadata has no column \<open>rpc_address\<close>, \<open>Create\<close> returns no endpoint,
  and on a row as wide as the metadata it returns an error.  When the metadata has no
  column \<open>peer\<close>, \<open>Create\<close> returns an endpoint for every \<open>rpc_address\<close> that is an
  address other than the unspecified one, and in no other case.
\<close>

theorem Create_missing_columns:
  "(''rpc_address'' \<notin> Name ` set (Columns (Metadata rows)) \<longrightarrow>
      (\<forall>ep. default_Create D dp \<lparr>resultSet = NewResultSet rows v, row = cols\<rparr> \<noteq> Inr ep) \<and>
      (length cols = length (Columns (Metadata rows)) \<longrightarrow>
         (\<exists>err. default_Create D dp \<lparr>resultSet = NewResultSet rows v, row = cols\<rparr> = Inl (Err err))))
   \<and> (''peer'' \<notin> Name ` set (Columns (Metadata rows)) \<longrightarrow>
      (\<forall>a. ByName D \<lparr>resultSet = NewResultSet rows v, row = cols\<rparr> ''rpc_address'' = Inr (VIP a) \<and>
           \<not> (a = [0, 0, 0, 0] \<or> a = IPv4zero \<or> a = IPv6zero) \<longrightarrow>
           default_Create D dp \<lparr>resultSet = NewResultSet rows v, row = cols\<rparr>
           = Inr (defaultEndpoint (IP_String a @ '':'' @ format_int dp))) \<and>
      (\<forall>ep. default_Create D dp \<lparr>resultSet = NewResultSet rows v, row = cols\<rparr> = Inr ep \<longrightarrow>
           (\<exists>a. ByName D \<lparr>resultSet = NewResultSet rows v, row = cols\<rparr> ''rpc_address'' = Inr (VIP a) \<and>
                \<not> (a = [0, 0, 0, 0] \<or> a = IPv4zero \<or> a = IPv6zero))))"
proof (intro conjI impI allI)
  fix ep
  assume "''rpc_address'' \<notin> Name ` set (Columns (Metadata rows))"
  then have "ByName D \<lparr>resultSet = NewResultSet rows v, row = cols\<rparr> ''rpc_address''
             = Inl (Err ColumnNameNotFound)"
    by (rule absent_ByName)
  then show "default_Create D dp \<lparr>resultSet = NewResultSet rows v, row = cols\<rparr> \<noteq> Inr ep"
    by (simp add: default_Create_def split: sum.splits failure.splits)
next
  assume "''rpc_address'' \<notin> Name ` set (Columns (Metadata rows))"
    and len: "length cols = length (Columns (Metadata rows))"
  then have "ByName D \<lparr>resultSet = NewResultSet rows v, row = cols\<rparr> ''rpc_address''
             = Inl (Err ColumnNameNotFound)"
    by (simp add: absent_ByName)
  moreover have "\<And>x. ByName D \<lparr>resultSet = NewResultSet rows v, row = cols\<rparr> ''peer'' \<noteq> Inl (Panic x)"
    using len by (rule ByName_no_panic)
  ultimately show "\<exists>err. default_Create D dp \<lparr>resultSet = NewResultSet rows v, row = cols\<rparr> = Inl (Err err)"
    by (simp add: default_Create_def split: sum.splits failure.splits)
next
  fix a
  assume "''peer'' \<notin> Name ` set (Columns (Metadata rows))"
    and "ByName D \<lparr>resultSet = NewResultSet rows v, row = cols\<rparr> ''rpc_address'' = Inr (VIP a) \<and>
         \<not> (a = [0, 0, 0, 0] \<or> a = IPv4zero \<or> a = IPv6zero)"
  then show "default_Create D dp \<lparr>resultSet = NewResultSet rows v, row = cols\<rparr>
             = Inr (defaultEndpoint (IP_String a @ '':'' @ format_int dp))"
    using unspecified_iff [of a]
    by (simp add: default_Create_def absent_ByName)
next
  fix ep
  assume "''peer'' \<notin> Name ` set (Columns (Metadata rows))"
    and "default_Create D dp \<lparr>resultSet = NewResultSet rows v, row = cols\<rparr> = Inr ep"
  then show "\<exists>a. ByName D \<lparr>resultSet = NewResultSet rows v, row = cols\<rparr> ''rpc_address'' = Inr (VIP a) \<and>
                \<not> (a = [0, 0, 0, 0] \<or> a = IPv4zero \<or> a = IPv6zero)"
    unfolding unspecified_iff [symmetric]
    by (auto simp add: default_Create_def absent_ByName split: sum.splits val.splits if_splits)
qed

theorem Create_missing_columns_witness:
  "''rpc_address'' \<notin> Name ` set (Columns (Metadata no_rpc_result)) \<and>
   length (row no_rpc_row) = length (Columns (Metadata no_rpc_result)) \<and>
   (\<exists>err. default_Create decode_sample 9042 no_rpc_row = Inl (Err err)) \<and>
   ''peer'' \<notin> Name ` set (Columns (Metadata no_peer_result)) \<and>
   ByName decode_sample (no_peer_row 0) ''rpc_address'' = Inr (VIP [10, 0, 0, 9]) \<and>
   default_Create decode_sample 9042 (no_peer_row 0) = Inr (defaultEndpoint ''10.0.0.9:9042'') \<and>
   ByName decode_sample (no_peer_row 1) ''rpc_address'' = Inr (VIP [0, 0, 0, 0]) \<and>
   default_Create decode_sample 9042 (no_peer_row 1) = Inl (Panic InterfaceConversion)"
proof -
  have 1: "''rpc_address'' \<notin> Name ` set (Columns (Metadata no_rpc_result))"
    by (simp add: no_rpc_result_def column_def)
  have 2: "length (row no_rpc_row) = length (Columns (Metadata no_rpc_result))"
    by (simp add: no_rpc_row_def no_rpc_result_def)
  have 3: "''peer'' \<notin> Name ` set (Columns (Metadata no_peer_result))"
    by (simp add: no_peer_result_def column_def)
  have 4: "ByName decode_sample (no_peer_row 0) ''rpc_address'' = Inr (VIP [10, 0, 0, 9])"
    "ByName decode_sample (no_peer_row 1) ''rpc_address'' = Inr (VIP [0, 0, 0, 0])"
    by (simp_all add: no_peer_row_def no_peer_result_def ByName_def NewResultSet_def column_def
        ByPos_def decode_sample_def)
  have 5: "default_Create decode_sample 9042 (no_peer_row 1) = Inl (Panic InterfaceConversion)"
    using 4(2) 3
    by (simp add: default_Create_def no_peer_row_def absent_ByName IP_Equal_def IPv4zero_def
        v4InV6Prefix_def)
  have 6: "IP_String [10, 0, 0, 9] @ '':'' @ format_int 9042 = ''10.0.0.9:9042''"
    by (simp add: IP_String_def To4_def format_int_def)
  have 7: "[10, 0, 0, 9] \<noteq> IPv4zero" "[10, 0, 0, 9] \<noteq> IPv6zero"
    by (simp_all add: IPv4zero_def IPv6zero_def v4InV6Prefix_def)
  from Create_missing_columns [of no_rpc_result decode_sample 9042 4 "row no_rpc_row"] 1 2
  have a: "\<exists>err. default_Create decode_sample 9042 no_rpc_row = Inl (Err err)"
    by (simp add: no_rpc_row_def)
  from Create_missing_columns [of no_peer_result decode_sample 9042 4 "row (no_peer_row 0)"] 3 4(1) 6 7
  have b: "default_Create decode_sample 9042 (no_peer_row 0) = Inr (defaultEndpoint ''10.0.0.9:9042'')"
    by (simp add: no_peer_row_def)
  from 1 2 3 4 5 a b show ?thesis by simp
qed

section \<open>The cloud strategy and the store\<close>

lemma copyTLSConfig_alloc:
  assumes "tlsConfig bundle < length h"
  shows "copyTLSConfig bundle serverName h =
         (Inr (length h),
          h @ [(h ! tlsConfig bundle)\<lparr>ServerName := serverName,
                                      InsecureSkipVerify := True,
                                      VerifyPeerCertificate :=
                                        Some (VerifyPeerCertificate_func (length h) bundle)\<rparr>])"
  using assms by (simp add: copyTLSConfig_def Bundle_TLSConfig_def nth_append)

lemma copyTLSConfig_nil:
  assumes "\<not> tlsConfig bundle < length h"
  shows "copyTLSConfig bundle serverName h = (Inl (Panic NilDereference), h)"
  using assms by (simp add: copyTLSConfig_def Bundle_TLSConfig_def)

lemma copyTLSConfig_frame:
  "copyTLSConfig bundle serverName h = (res, h') \<Longrightarrow> take (length h) h' = h"
  by (cases "tlsConfig bundle < length h")
     (auto simp add: copyTLSConfig_alloc copyTLSConfig_nil)

lemma take_prefix_length:
  assumes "take (length h) h' = h"
  shows "length h \<le> length h'"
proof -
  have "length (take (length h) h') = length h" using assms by simp
  then show ?thesis by simp
qed

lemma take_prefix_trans:
  assumes "take (length h) h1 = h" "take (length h1) h2 = h1"
  shows "take (length h) h2 = h"
proof -
  have "length h \<le> length h1" using assms(1) by (rule take_prefix_length)
  then have "take (length h) h2 = take (length h) (take (length h1) h2)" by simp
  with assms show ?thesis by simp
qed

lemma take_prefix_nth:
  assumes "take (length h) h' = h" "q < length h"
  shows "h' ! q = h ! q"
proof -
  have "take (length h) h' ! q = h' ! q" using assms(2) by simp
  with assms(1) show ?thesis by simp
qed

lemma astra_endpoints_frame:
  "astra_endpoints bundle proxy cps h = (res, h') \<Longrightarrow> take (length h) h' = h"
proof (induction cps arbitrary: h res h')
  case Nil
  then show ?case by simp
next
  case (Cons cp cps)
  obtain r1 h1 where c: "copyTLSConfig bundle cp h = (r1, h1)" by fastforce
  then have f1: "take (length h) h1 = h" by (rule copyTLSConfig_frame)
  show ?case
  proof (cases r1)
    case (Inl f)
    with c Cons.prems f1 show ?thesis by simp
  next
    case (Inr p)
    obtain r2 h2 where l: "astra_endpoints bundle proxy cps h1 = (r2, h2)" by fastforce
    then have f2: "take (length h1) h2 = h1" by (rule Cons.IH)
    from c Inr l Cons.prems have "h' = h2" by (auto split: sum.splits)
    with f1 f2 show ?thesis by (simp add: take_prefix_trans)
  qed
qed

lemma astra_endpoints_fresh:
  "astra_endpoints bundle proxy cps h = (Inr eps, h') \<Longrightarrow>
   distinct (map TlsConfig eps) \<and>
   (\<forall>ep \<in> set eps. \<exists>p. ep = astraEndpoint proxy p \<and> length h \<le> p \<and> p < length h')"
proof (induction cps arbitrary: h eps h')
  case Nil
  then show ?case by simp
next
  case (Cons cp cps)
  obtain r1 h1 where c: "copyTLSConfig bundle cp h = (r1, h1)" by fastforce
  obtain r2 h2 where l: "astra_endpoints bundle proxy cps h1 = (r2, h2)" by fastforce
  from c l Cons.prems obtain p eps' where
    r: "r1 = Inr p" "r2 = Inr eps'" "eps = astraEndpoint proxy p # eps'" "h' = h2"
    by (auto split: sum.splits)
  have valid: "tlsConfig bundle < length h"
    using c r(1) by (cases "tlsConfig bundle < length h") (auto simp: copyTLSConfig_nil)
  with c r(1) have p: "p = length h" "length h1 = Suc (length h)"
    by (auto simp: copyTLSConfig_alloc)
  from l r(2) have IH: "distinct (map TlsConfig eps') \<and>
     (\<forall>ep \<in> set eps'. \<exists>q. ep = astraEndpoint proxy q \<and> length h1 \<le> q \<and> q < length h2)"
    by (intro Cons.IH) simp
  from l have "length h1 \<le> length h2"
    using astra_endpoints_frame take_prefix_length by blast
  with IH p r show ?case by fastforce
qed

lemma Bundle_TLSConfig_frame:
  "Bundle_TLSConfig bundle h = (p, h') \<Longrightarrow> take (length h) h' = h"
  by (auto simp add: Bundle_TLSConfig_def split: if_splits)

lemma ResolveAstra_Inr:
  assumes "ResolveAstra G U bundle h = (Inr f, h')"
  shows "\<exists>response body metadata eps.
           G (metadata_url bundle) = Inr response \<and> Body response = Inr body \<and>
           U body = Inr (Some metadata) \<and>
           astra_endpoints bundle (SniProxyAddress (ContactInfo metadata))
             (ContactPoints (ContactInfo metadata)) (snd (Bundle_TLSConfig bundle h)) = (Inr eps, h') \<and>
           f = astraResolver eps (SniProxyAddress (ContactInfo metadata)) bundle"
  using assms
  by (auto simp add: ResolveAstra_def split: prod.splits sum.splits option.splits)

lemma ResolveAstra_frame:
  assumes "ResolveAstra G U bundle h = (res, h')"
  shows "take (length h) h' = h"
proof -
  obtain p h0 where b: "Bundle_TLSConfig bundle h = (p, h0)" by fastforce
  then have f0: "take (length h) h0 = h" by (rule Bundle_TLSConfig_frame)
  have "h' = h0 \<or> (\<exists>proxy cps r. astra_endpoints bundle proxy cps h0 = (r, h'))"
    using assms b
    by (auto simp add: ResolveAstra_def split: prod.splits sum.splits option.splits)
  then show ?thesis
  proof
    assume "h' = h0"
    with f0 show ?thesis by simp
  next
    assume "\<exists>proxy cps r. astra_endpoints bundle proxy cps h0 = (r, h')"
    then obtain proxy cps r where "astra_endpoints bundle proxy cps h0 = (r, h')" by blast
    then have "take (length h0) h' = h0" by (rule astra_endpoints_frame)
    with f0 show ?thesis by (rule take_prefix_trans)
  qed
qed

lemma astra_Create_frame:
  assumes "astra_Create D a_host bundle r h = (res, h')"
  shows "take (length h) h' = h"
proof -
  have "h' = h \<or> (\<exists>n x. copyTLSConfig bundle n h = (x, h'))"
    using assms
    by (auto simp add: astra_Create_def split: prod.splits sum.splits val.splits)
  then show ?thesis
    using copyTLSConfig_frame by auto
qed

text \<open>
  C6.  Building a per-node configuration never changes an object that was in the store
  before, the bundle's base configuration and the configurations of all earlier
  endpoints included: the store after \<open>copyTLSConfig\<close>, after the cloud \<open>Create\<close>
  and after \<open>ResolveAstra\<close> begins with the store before.  The configuration returned
  is a new object that carries the server name of this call, and the contact points of
  one bootstrap have pairwise different configurations.
\<close>

theorem copyTLSConfig_fresh:
  "(tlsConfig bundle < length h \<longrightarrow>
      (\<exists>p h'. copyTLSConfig bundle serverName h = (Inr p, h') \<and>
         length h \<le> p \<and> p < length h' \<and> ServerName (h' ! p) = serverName \<and>
         take (length h) h' = h \<and> h' ! tlsConfig bundle = h ! tlsConfig bundle))
   \<and> (astra_Create D a_host bundle r h = (res, h1) \<longrightarrow>
        take (length h) h1 = h \<and>
        (\<forall>ep. res = Inr ep \<longrightarrow>
           (\<exists>p. TlsConfig ep = Some p \<and> length h \<le> p \<and> p < length h1)))
   \<and> (ResolveAstra G U bundle h = (res', h2) \<longrightarrow>
        take (length h) h2 = h \<and>
        (\<forall>f. res' = Inr f \<longrightarrow>
           distinct (map TlsConfig (contactPoints f)) \<and>
           (\<forall>ep \<in> set (contactPoints f).
              \<exists>p. TlsConfig ep = Some p \<and> length h \<le> p \<and> p < length h2)))"
proof (intro conjI impI allI)
  assume v: "tlsConfig bundle < length h"
  show "\<exists>p h'. copyTLSConfig bundle serverName h = (Inr p, h') \<and>
         length h \<le> p \<and> p < length h' \<and> ServerName (h' ! p) = serverName \<and>
         take (length h) h' = h \<and> h' ! tlsConfig bundle = h ! tlsConfig bundle"
    using v by (simp add: copyTLSConfig_alloc nth_append)
next
  assume "astra_Create D a_host bundle r h = (res, h1)"
  then show "take (length h) h1 = h" by (rule astra_Create_frame)
next
  fix ep
  assume c: "astra_Create D a_host bundle r h = (res, h1)" and r: "res = Inr ep"
  from c r obtain n p where cp: "copyTLSConfig bundle n h = (Inr p, h1)" "ep = astraEndpoint a_host p"
    by (auto simp add: astra_Create_def split: prod.splits sum.splits val.splits)
  then have "tlsConfig bundle < length h"
    by (cases "tlsConfig bundle < length h") (auto simp: copyTLSConfig_nil)
  with cp show "\<exists>p. TlsConfig ep = Some p \<and> length h \<le> p \<and> p < length h1"
    by (auto simp: copyTLSConfig_alloc)
next
  assume "ResolveAstra G U bundle h = (res', h2)"
  then show "take (length h) h2 = h" by (rule ResolveAstra_frame)
next
  fix f
  assume a: "ResolveAstra G U bundle h = (res', h2)" and r: "res' = Inr f"
  from ResolveAstra_Inr [OF a [unfolded r]] obtain proxy cps where
    e: "astra_endpoints bundle proxy cps (snd (Bundle_TLSConfig bundle h)) = (Inr (contactPoints f), h2)"
    by auto
  from astra_endpoints_fresh [OF e] show "distinct (map TlsConfig (contactPoints f))"
    by simp
next
  fix f
  assume a: "ResolveAstra G U bundle h = (res', h2)" and r: "res' = Inr f"
  from ResolveAstra_Inr [OF a [unfolded r]] obtain proxy cps where
    e: "astra_endpoints bundle proxy cps (snd (Bundle_TLSConfig bundle h)) = (Inr (contactPoints f), h2)"
    by auto
  obtain p0 h0 where b: "Bundle_TLSConfig bundle h = (p0, h0)" by fastforce
  then have le: "length h \<le> length h0"
    using Bundle_TLSConfig_frame take_prefix_length by blast
  show "\<forall>ep \<in> set (contactPoints f). \<exists>p. TlsConfig ep = Some p \<and> length h \<le> p \<and> p < length h2"
  proof
    fix ep assume "ep \<in> set (contactPoints f)"
    with astra_endpoints_fresh [OF e] b
    obtain p where "ep = astraEndpoint proxy p" "length h0 \<le> p" "p < length h2" by auto
    with le show "\<exists>p. TlsConfig ep = Some p \<and> length h \<le> p \<and> p < length h2"
      by auto
  qed
qed

lemma hexDigit_inj:
  assumes "i < 16" "j < 16" "hexDigit ! i = hexDigit ! j"
  shows "i = j"
proof -
  have "distinct hexDigit" "length hexDigit = 16"
    by (simp_all add: hexDigit_def)
  with assms show ?thesis
    by (simp add: nth_eq_iff_index_eq)
qed

lemma hex_byte_inj:
  assumes "hex_byte a = hex_byte b"
  shows "a = b"
proof -
  have bound: "unat x div 16 < 16" "unat x mod 16 < 16" for x :: byte
  proof -
    have "unat x < 2 ^ LENGTH(8)" by (rule unsigned_less)
    then show "unat x div 16 < 16" by simp
  qed simp
  from assms have "hexDigit ! (unat a div 16) = hexDigit ! (unat b div 16)"
    and "hexDigit ! (unat a mod 16) = hexDigit ! (unat b mod 16)"
    by (simp_all add: hex_byte_def)
  then have "unat a div 16 = unat b div 16" "unat a mod 16 = unat b mod 16"
    using bound by (auto intro: hexDigit_inj)
  then have "unat a = unat b"
    by (metis div_mult_mod_eq)
  then show ?thesis by (simp add: word_unat_eq_iff)
qed

lemma length_hexString: "length (hexString bs) = 2 * length bs"
  by (induction bs) (simp_all add: hexString_def hex_byte_def)

lemma hexString_inj:
  "hexString xs = hexString ys \<Longrightarrow> xs = ys"
proof (induction xs arbitrary: ys)
  case Nil
  then have "length (hexString ys) = 0" by (simp add: hexString_def)
  then show ?case by (simp add: length_hexString)
next
  case (Cons x xs)
  from Cons.prems have "length (hexString ys) = 2 * length (x # xs)"
    by (metis length_hexString)
  then obtain y ys' where ys: "ys = y # ys'"
    by (cases ys) (simp_all add: length_hexString)
  with Cons.prems have "hex_byte x @ hexString xs = hex_byte y @ hexString ys'"
    by (simp add: hexString_def)
  moreover have "length (hex_byte x) = length (hex_byte y)"
    by (simp add: hex_byte_def)
  ultimately have "hex_byte x = hex_byte y" "hexString xs = hexString ys'"
    by simp_all
  with Cons.IH ys show ?case
    by (simp add: hex_byte_inj)
qed

lemma UUID_String_inj:
  assumes "length u = 16" "length w = 16" "UUID_String u = UUID_String w"
  shows "u = w"
proof -
  have pieces: "x = take 4 x @ take 2 (drop 4 x) @ take 2 (drop 6 x) @ take 2 (drop 8 x) @ drop 10 x"
    for x :: "byte list"
  proof -
    have "drop 8 x = take 2 (drop 8 x) @ drop 10 x"
      using append_take_drop_id [of 2 "drop 8 x"] by simp
    moreover have "drop 6 x = take 2 (drop 6 x) @ drop 8 x"
      using append_take_drop_id [of 2 "drop 6 x"] by simp
    moreover have "drop 4 x = take 2 (drop 4 x) @ drop 6 x"
      using append_take_drop_id [of 2 "drop 4 x"] by simp
    moreover have "x = take 4 x @ drop 4 x"
      by simp
    ultimately show ?thesis by metis
  qed
  from assms(3) have
    "hexString (take 4 u) @ ''-'' @ hexString (take 2 (drop 4 u)) @ ''-'' @
     hexString (take 2 (drop 6 u)) @ ''-'' @ hexString (take 2 (drop 8 u)) @ ''-'' @
     hexString (drop 10 u)
     = hexString (take 4 w) @ ''-'' @ hexString (take 2 (drop 4 w)) @ ''-'' @
     hexString (take 2 (drop 6 w)) @ ''-'' @ hexString (take 2 (drop 8 w)) @ ''-'' @
     hexString (drop 10 w)"
    by (simp only: UUID_String_def)
  then have "hexString (take 4 u) = hexString (take 4 w) \<and>
     hexString (take 2 (drop 4 u)) = hexString (take 2 (drop 4 w)) \<and>
     hexString (take 2 (drop 6 u)) = hexString (take 2 (drop 6 w)) \<and>
     hexString (take 2 (drop 8 u)) = hexString (take 2 (drop 8 w)) \<and>
     hexString (drop 10 u) = hexString (drop 10 w)"
    using assms(1,2) by (simp add: length_hexString)
  then have "take 4 u = take 4 w" "take 2 (drop 4 u) = take 2 (drop 4 w)"
    "take 2 (drop 6 u) = take 2 (drop 6 w)" "take 2 (drop 8 u) = take 2 (drop 8 w)"
    "drop 10 u = drop 10 w"
    by (simp_all add: hexString_inj)
  with pieces [of u] pieces [of w] show ?thesis by simp
qed

lemma astra_Create_uuid:
  assumes "ByName D r ''host_id'' = Inr (VUUID uuid)" "tlsConfig bundle < length h"
  shows "astra_Create D a_host bundle r h =
         (Inr (astraEndpoint a_host (length h)),
          h @ [(h ! tlsConfig bundle)\<lparr>ServerName := UUID_String uuid,
                                      InsecureSkipVerify := True,
                                      VerifyPeerCertificate :=
                                        Some (VerifyPeerCertificate_func (length h) bundle)\<rparr>])"
  using assms by (simp add: astra_Create_def copyTLSConfig_alloc)

text \<open>
  C4.  For a factory returned by \<open>ResolveAstra\<close> and a row whose \<open>host_id\<close> decodes
  to the identifier \<open>uuid\<close>, \<open>Create\<close> returns an endpoint whose address is the
  \<open>sni_proxy_address\<close> of the metadata read at bootstrap, whose TLS configuration has
  the text of \<open>uuid\<close> as server name, and whose key is the address, a colon and that
  server name.
\<close>

theorem astra_Create_endpoint:
  assumes "ResolveAstra G U bundle h0 = (Inr f, h1)"
    and "G (metadata_url bundle) = Inr response"
    and "Body response = Inr body"
    and "U body = Inr (Some metadata)"
    and "ByName D r ''host_id'' = Inr (VUUID uuid)"
    and "tlsConfig bundle < length h"
  shows "\<exists>ep p h'. Create D f r h = (Inr ep, h') \<and>
           Addr ep = SniProxyAddress (ContactInfo metadata) \<and>
           TlsConfig ep = Some p \<and> p < length h' \<and>
           ServerName (h' ! p) = UUID_String uuid \<and>
           Key h' ep = Inr (Addr ep @ '':'' @ ServerName (h' ! p))"
proof -
  from ResolveAstra_Inr [OF assms(1)] assms(2,3,4)
  obtain eps where f: "f = astraResolver eps (SniProxyAddress (ContactInfo metadata)) bundle"
    by auto
  show ?thesis
    unfolding f using assms(5,6)
    by (simp add: astra_Create_uuid)
qed

text \<open>
  C5.  Two rows with different \<open>host_id\<close> values (arrays of sixteen bytes), given to
  \<open>Create\<close> of one cloud factory one after the other, give two endpoints with the same
  address and, in the store after both calls, with different keys; the second call
  leaves the key of the first endpoint as it was.
\<close>

theorem distinct_host_ids_distinct_keys:
  assumes "ByName D r1 ''host_id'' = Inr (VUUID u1)"
    and "ByName D r2 ''host_id'' = Inr (VUUID u2)"
    and "length u1 = 16" and "length u2 = 16" and "u1 \<noteq> u2"
    and "tlsConfig bundle < length h"
    and "Create D (astraResolver cps a_host bundle) r1 h = (res1, h1)"
    and "Create D (astraResolver cps a_host bundle) r2 h1 = (res2, h2)"
  shows "\<exists>e1 e2 k1 k2. res1 = Inr e1 \<and> res2 = Inr e2 \<and> Addr e1 = Addr e2 \<and>
           Key h2 e1 = Inr k1 \<and> Key h2 e2 = Inr k2 \<and> k1 \<noteq> k2 \<and> Key h1 e1 = Inr k1"
proof -
  from assms(7) astra_Create_uuid [OF assms(1,6), of a_host]
  have 1: "res1 = Inr (astraEndpoint a_host (length h))"
    "h1 = h @ [(h ! tlsConfig bundle)\<lparr>ServerName := UUID_String u1,
                                      InsecureSkipVerify := True,
                                      VerifyPeerCertificate :=
                                        Some (VerifyPeerCertificate_func (length h) bundle)\<rparr>]"
    by simp_all
  have v1: "tlsConfig bundle < length h1" using assms(6) 1(2) by simp
  from assms(8) astra_Create_uuid [OF assms(2) v1, of a_host]
  have 2: "res2 = Inr (astraEndpoint a_host (length h1))"
    "h2 = h1 @ [(h1 ! tlsConfig bundle)\<lparr>ServerName := UUID_String u2,
                                      InsecureSkipVerify := True,
                                      VerifyPeerCertificate :=
                                        Some (VerifyPeerCertificate_func (length h1) bundle)\<rparr>]"
    by simp_all
  have len: "length h1 = Suc (length h)" using 1(2) by simp
  have k1: "Key h1 (astraEndpoint a_host (length h)) = Inr (a_host @ '':'' @ UUID_String u1)"
    by (simp add: 1(2))
  have k1': "Key h2 (astraEndpoint a_host (length h)) = Inr (a_host @ '':'' @ UUID_String u1)"
    by (simp add: 2(2) len nth_append) (simp add: 1(2))
  have k2: "Key h2 (astraEndpoint a_host (length h1)) = Inr (a_host @ '':'' @ UUID_String u2)"
    by (simp add: 2(2))
  have "UUID_String u1 \<noteq> UUID_String u2"
    using assms(3,4,5) UUID_String_inj by blast
  then have "a_host @ '':'' @ UUID_String u1 \<noteq> a_host @ '':'' @ UUID_String u2"
    by simp
  with 1(1) 2(1) k1 k1' k2 show ?thesis
    by (metis Addr.simps(2))
qed

lemma resolve_loop_default:
  "resolve_loop L A dp cps acc = Inr eps \<Longrightarrow> \<forall>ep \<in> set acc. IsResolved ep \<Longrightarrow>
   \<forall>ep \<in> set eps. IsResolved ep"
proof (induction cps arbitrary: acc)
  case Nil
  then show ?case by simp
next
  case (Cons cp cps)
  from Cons.prems(1) obtain addrs p where
    "resolve_loop L A dp cps (acc @ map (\<lambda>a. defaultEndpoint (a @ '':'' @ format_int p)) addrs) = Inr eps"
    by (auto split: list.splits sum.splits)
  moreover have "\<forall>ep \<in> set (acc @ map (\<lambda>a. defaultEndpoint (a @ '':'' @ format_int p)) addrs).
                   IsResolved ep"
    using Cons.prems(2) by auto
  ultimately show ?case by (rule Cons.IH)
qed

text \<open>
  C10.  The contact points of \<open>ResolveAstra\<close> and the endpoints of the cloud
  \<open>Create\<close> are not resolved; the contact points of \<open>ResolveWithDefaultPort\<close> and
  the endpoints of the direct \<open>Create\<close> are resolved; \<open>String\<close> of any endpoint is
  its \<open>Key\<close>.
\<close>


theorem IsResolved_by_strategy:
  "(ResolveAstra G U bundle h = (Inr f, ha) \<longrightarrow>
      (\<forall>ep \<in> set (Factory_ContactPoints f). \<not> IsResolved ep))
   \<and> (Create D (astraResolver cps a_host bundle) r h = (Inr ep, hb) \<longrightarrow> \<not> IsResolved ep)
   \<and> (ResolveWithDefaultPort L A contacts dp = Inr fd \<longrightarrow>
      (\<forall>ep \<in> set (Factory_ContactPoints fd). IsResolved ep))
   \<and> (Create D (defaultEndpointFactory cpsd dp) r h = (Inr epd, hc) \<longrightarrow> IsResolved epd)
   \<and> String h e = Key h e"
proof (intro conjI impI)
  assume a: "ResolveAstra G U bundle h = (Inr f, ha)"
  from ResolveAstra_Inr [OF a] obtain proxy cs where
    e: "astra_endpoints bundle proxy cs (snd (Bundle_TLSConfig bundle h)) = (Inr (contactPoints f), ha)"
    by auto
  from astra_endpoints_fresh [OF e]
  show "\<forall>ep \<in> set (Factory_ContactPoints f). \<not> IsResolved ep"
    by (auto simp add: Factory_ContactPoints_def)
next
  assume "Create D (astraResolver cps a_host bundle) r h = (Inr ep, hb)"
  then show "\<not> IsResolved ep"
    by (auto simp add: astra_Create_def split: prod.splits sum.splits val.splits)
next
  assume "ResolveWithDefaultPort L A contacts dp = Inr fd"
  then obtain eps where "resolve_loop L A dp contacts [] = Inr eps"
    "fd = defaultEndpointFactory eps dp"
    by (auto simp add: ResolveWithDefaultPort_def split: sum.splits)
  then show "\<forall>ep \<in> set (Factory_ContactPoints fd). IsResolved ep"
    using resolve_loop_default [of L A dp contacts "[]" eps]
    by (simp add: Factory_ContactPoints_def)
next
  assume "Create D (defaultEndpointFactory cpsd dp) r h = (Inr epd, hc)"
  then show "IsResolved epd"
    by (auto simp add: default_Create_def split: sum.splits val.splits if_splits failure.splits)
next
  show "String h e = Key h e"
    by (cases e) simp_all
qed

lemma boot_value:
  "ResolveAstra (respond 200 metadata_json) unmarshal_sample bundle0 heap0 = (Inr boot_factory, boot_heap)"
  by (simp add: ResolveAstra_def respond_def unmarshal_sample_def metadata0_def
      Bundle_TLSConfig_def copyTLSConfig_def bundle0_def heap0_def boot_factory_def
      boot_heap_def node_config_def)

lemma peers_host_id:
  "ByName decode_sample (peers_row 0) ''host_id'' = Inr (VUUID uuid_a)"
  "ByName decode_sample (peers_row 1) ''host_id'' = Inr (VUUID uuid_b)"
  by (simp_all add: peers_row_def peers_result_def ByName_def NewResultSet_def column_def
      ByPos_def decode_sample_def uuid_a_def uuid_b_def)

lemma uuid_text:
  "UUID_String uuid_a = ''00010203-0405-0607-0809-0a0b0c0d0e0f''"
  "UUID_String uuid_b = ''00010203-0405-0607-0809-0a0b0c0d0eff''"
  by (simp_all add: UUID_String_def uuid_a_def uuid_b_def hexString_def hex_byte_def hexDigit_def)

theorem astra_Create_endpoint_witness:
  "ResolveAstra (respond 200 metadata_json) unmarshal_sample bundle0 heap0 = (Inr boot_factory, boot_heap) \<and>
   ByName decode_sample (peers_row 0) ''host_id'' = Inr (VUUID uuid_a) \<and>
   tlsConfig bundle0 < length boot_heap \<and>
   (\<exists>ep p h'. Create decode_sample boot_factory (peers_row 0) boot_heap = (Inr ep, h') \<and>
      Addr ep = ''proxy.example.com:29042'' \<and> TlsConfig ep = Some p \<and> p < length h' \<and>
      ServerName (h' ! p) = ''00010203-0405-0607-0809-0a0b0c0d0e0f'' \<and>
      Key h' ep = Inr ''proxy.example.com:29042:00010203-0405-0607-0809-0a0b0c0d0e0f'')"
proof -
  have g: "respond 200 metadata_json (metadata_url bundle0) = Inr \<lparr>StatusCode = 200, Body = Inr metadata_json\<rparr>"
    by (simp add: respond_def)
  have b: "Body \<lparr>StatusCode = 200, Body = Inr metadata_json\<rparr> = Inr metadata_json"
    by simp
  have u: "unmarshal_sample metadata_json = Inr (Some metadata0)"
    by (simp add: unmarshal_sample_def)
  have v: "tlsConfig bundle0 < length boot_heap"
    by (simp add: bundle0_def boot_heap_def)
  from astra_Create_endpoint [OF boot_value g b u peers_host_id(1) v]
  obtain ep p h' where
    "Create decode_sample boot_factory (peers_row 0) boot_heap = (Inr ep, h')"
    "Addr ep = SniProxyAddress (ContactInfo metadata0)"
    "TlsConfig ep = Some p" "p < length h'"
    "ServerName (h' ! p) = UUID_String uuid_a"
    "Key h' ep = Inr (Addr ep @ '':'' @ ServerName (h' ! p))"
    by blast
  then have "Create decode_sample boot_factory (peers_row 0) boot_heap = (Inr ep, h') \<and>
      Addr ep = ''proxy.example.com:29042'' \<and> TlsConfig ep = Some p \<and> p < length h' \<and>
      ServerName (h' ! p) = ''00010203-0405-0607-0809-0a0b0c0d0e0f'' \<and>
      Key h' ep = Inr ''proxy.example.com:29042:00010203-0405-0607-0809-0a0b0c0d0e0f''"
    by (simp add: metadata0_def uuid_text)
  with boot_value peers_host_id(1) v show ?thesis by blast
qed

theorem distinct_host_ids_distinct_keys_witness:
  "ByName decode_sample (peers_row 0) ''host_id'' = Inr (VUUID uuid_a) \<and>
   ByName decode_sample (peers_row 1) ''host_id'' = Inr (VUUID uuid_b) \<and>
   length uuid_a = 16 \<and> length uuid_b = 16 \<and> uuid_a \<noteq> uuid_b \<and>
   tlsConfig bundle0 < length boot_heap \<and>
   (\<exists>e1 e2 k1 k2 h1 h2.
      Create decode_sample boot_factory (peers_row 0) boot_heap = (Inr e1, h1) \<and>
      Create decode_sample boot_factory (peers_row 1) h1 = (Inr e2, h2) \<and>
      Addr e1 = Addr e2 \<and> Key h2 e1 = Inr k1 \<and> Key h2 e2 = Inr k2 \<and> k1 \<noteq> k2)"
proof -
  have l: "length uuid_a = 16" "length uuid_b = 16" "uuid_a \<noteq> uuid_b"
    by (simp_all add: uuid_a_def uuid_b_def)
  have v: "tlsConfig bundle0 < length boot_heap"
    by (simp add: bundle0_def boot_heap_def)
  obtain res1 h1 where
    c1: "Create decode_sample boot_factory (peers_row 0) boot_heap = (res1, h1)"
    by fastforce
  obtain res2 h2 where
    c2: "Create decode_sample boot_factory (peers_row 1) h1 = (res2, h2)"
    by fastforce
  from distinct_host_ids_distinct_keys
    [OF peers_host_id(1) peers_host_id(2) l v c1 [unfolded boot_factory_def] c2 [unfolded boot_factory_def]]
  obtain e1 e2 k1 k2 where "res1 = Inr e1" "res2 = Inr e2" "Addr e1 = Addr e2"
    "Key h2 e1 = Inr k1" "Key h2 e2 = Inr k2" "k1 \<noteq> k2"
    by blast
  with c1 c2 peers_host_id l v show ?thesis by blast
qed

theorem copyTLSConfig_fresh_witness:
  "tlsConfig bundle0 < length boot_heap \<and>
   (\<exists>p h'. copyTLSConfig bundle0 ''id-3'' boot_heap = (Inr p, h') \<and>
      length boot_heap \<le> p \<and> p < length h' \<and> ServerName (h' ! p) = ''id-3'' \<and>
      take (length boot_heap) h' = boot_heap \<and> h' ! tlsConfig bundle0 = base_config) \<and>
   (\<exists>ep p h1. astra_Create decode_sample ''proxy.example.com:29042'' bundle0 (peers_row 0) boot_heap
                 = (Inr ep, h1) \<and>
      take (length boot_heap) h1 = boot_heap \<and> TlsConfig ep = Some p \<and> length boot_heap \<le> p) \<and>
   ResolveAstra (respond 200 metadata_json) unmarshal_sample bundle0 heap0 = (Inr boot_factory, boot_heap) \<and>
   take (length heap0) boot_heap = heap0 \<and>
   distinct (map TlsConfig (contactPoints boot_factory))"
proof -
  note t = copyTLSConfig_fresh [of bundle0 boot_heap "''id-3''" decode_sample
      "''proxy.example.com:29042''" "peers_row 0"
      "fst (astra_Create decode_sample ''proxy.example.com:29042'' bundle0 (peers_row 0) boot_heap)"
      "snd (astra_Create decode_sample ''proxy.example.com:29042'' bundle0 (peers_row 0) boot_heap)"]
  note t0 = copyTLSConfig_fresh [of bundle0 heap0 "''id-3''" decode_sample
      "''proxy.example.com:29042''" "peers_row 0" _ _
      "respond 200 metadata_json" unmarshal_sample "Inr boot_factory" boot_heap]
  have v: "tlsConfig bundle0 < length boot_heap"
    by (simp add: bundle0_def boot_heap_def)
  have b: "boot_heap ! tlsConfig bundle0 = base_config"
    by (simp add: bundle0_def boot_heap_def)
  have c: "fst (astra_Create decode_sample ''proxy.example.com:29042'' bundle0 (peers_row 0) boot_heap)
           = Inr (astraEndpoint ''proxy.example.com:29042'' 4)"
    by (simp add: astra_Create_uuid [OF peers_host_id(1) v]) (simp add: boot_heap_def)
  from t v b have 1: "\<exists>p h'. copyTLSConfig bundle0 ''id-3'' boot_heap = (Inr p, h') \<and>
      length boot_heap \<le> p \<and> p < length h' \<and> ServerName (h' ! p) = ''id-3'' \<and>
      take (length boot_heap) h' = boot_heap \<and> h' ! tlsConfig bundle0 = base_config"
    by simp
  from t c have 2: "\<exists>ep p h1.
      astra_Create decode_sample ''proxy.example.com:29042'' bundle0 (peers_row 0) boot_heap = (Inr ep, h1) \<and>
      take (length boot_heap) h1 = boot_heap \<and> TlsConfig ep = Some p \<and> length boot_heap \<le> p"
    by (metis prod.collapse)
  from t0 boot_value have 3: "take (length heap0) boot_heap = heap0 \<and>
      distinct (map TlsConfig (contactPoints boot_factory))"
    by blast
  from v 1 2 3 boot_value show ?thesis by blast
qed

theorem IsResolved_by_strategy_witness:
  "ResolveAstra (respond 200 metadata_json) unmarshal_sample bundle0 heap0 = (Inr boot_factory, boot_heap) \<and>
   Factory_ContactPoints boot_factory
     = [astraEndpoint ''proxy.example.com:29042'' 2, astraEndpoint ''proxy.example.com:29042'' 3] \<and>
   \<not> IsResolved (astraEndpoint ''proxy.example.com:29042'' 2) \<and>
   \<not> IsResolved (astraEndpoint ''proxy.example.com:29042'' 3) \<and>
   Create decode_sample (astraResolver [] ''proxy.example.com:29042'' bundle0) (peers_row 0) boot_heap
     = (Inr (astraEndpoint ''proxy.example.com:29042'' 4),
        boot_heap @ [node_config ''00010203-0405-0607-0809-0a0b0c0d0e0f'' 4]) \<and>
   \<not> IsResolved (astraEndpoint ''proxy.example.com:29042'' 4) \<and>
   ResolveWithDefaultPort lookup_literal atoi_sample [''10.0.0.1'', ''10.0.0.2:9043''] 9042
     = Inr (defaultEndpointFactory [defaultEndpoint ''10.0.0.1:9042'', defaultEndpoint ''10.0.0.2:9043''] 9042) \<and>
   IsResolved (defaultEndpoint ''10.0.0.1:9042'') \<and>
   IsResolved (defaultEndpoint ''10.0.0.2:9043'') \<and>
   Create decode_sample (defaultEndpointFactory [] 9042) (peers_row 0) boot_heap
     = (Inr (defaultEndpoint ''10.0.0.5:9042''), boot_heap) \<and>
   IsResolved (defaultEndpoint ''10.0.0.5:9042'') \<and>
   String boot_heap (astraEndpoint ''proxy.example.com:29042'' 2)
     = Key boot_heap (astraEndpoint ''proxy.example.com:29042'' 2)"
proof -
  have v: "tlsConfig bundle0 < length boot_heap"
    by (simp add: bundle0_def boot_heap_def)
  have 1: "Factory_ContactPoints boot_factory
     = [astraEndpoint ''proxy.example.com:29042'' 2, astraEndpoint ''proxy.example.com:29042'' 3]"
    by (simp add: Factory_ContactPoints_def boot_factory_def)
  have 5: "Factory_ContactPoints
        (defaultEndpointFactory [defaultEndpoint ''10.0.0.1:9042'', defaultEndpoint ''10.0.0.2:9043''] 9042)
     = [defaultEndpoint ''10.0.0.1:9042'', defaultEndpoint ''10.0.0.2:9043'']"
    by (simp add: Factory_ContactPoints_def)
  have 2: "Create decode_sample (astraResolver [] ''proxy.example.com:29042'' bundle0) (peers_row 0) boot_heap
     = (Inr (astraEndpoint ''proxy.example.com:29042'' 4),
        boot_heap @ [node_config ''00010203-0405-0607-0809-0a0b0c0d0e0f'' 4])"
    by (simp add: astra_Create_uuid [OF peers_host_id(1) v] uuid_text)
       (simp add: boot_heap_def node_config_def bundle0_def)
  have 3: "ResolveWithDefaultPort lookup_literal atoi_sample [''10.0.0.1'', ''10.0.0.2:9043''] 9042
     = Inr (defaultEndpointFactory [defaultEndpoint ''10.0.0.1:9042'', defaultEndpoint ''10.0.0.2:9043''] 9042)"
    by (simp add: ResolveWithDefaultPort_def lookup_literal_def atoi_sample_def format_int_def)
  have 4: "Create decode_sample (defaultEndpointFactory [] 9042) (peers_row 0) boot_heap
     = (Inr (defaultEndpoint ''10.0.0.5:9042''), boot_heap)"
    by (simp add: default_Create_def peers_lookup IP_Equal_def IPv4zero_def v4InV6Prefix_def
        IP_String_def To4_def format_int_def)
  note t0 = IsResolved_by_strategy [of "respond 200 metadata_json" unmarshal_sample bundle0 heap0
      boot_factory boot_heap]
  note t = IsResolved_by_strategy [of _ _ bundle0 boot_heap _ _ decode_sample "[]" "''proxy.example.com:29042''" "peers_row 0"
      "astraEndpoint ''proxy.example.com:29042'' 4"
      "boot_heap @ [node_config ''00010203-0405-0607-0809-0a0b0c0d0e0f'' 4]"
      lookup_literal atoi_sample "[''10.0.0.1'', ''10.0.0.2:9043'']" 9042
      "defaultEndpointFactory [defaultEndpoint ''10.0.0.1:9042'', defaultEndpoint ''10.0.0.2:9043''] 9042"
      "[]" "defaultEndpoint ''10.0.0.5:9042''" boot_heap
      "astraEndpoint ''proxy.example.com:29042'' 2"]
  from t0 boot_value
  have "\<forall>ep \<in> set (Factory_ContactPoints boot_factory). \<not> IsResolved ep"
    by blast
  then have a: "\<not> IsResolved (astraEndpoint ''proxy.example.com:29042'' 2)"
    "\<not> IsResolved (astraEndpoint ''proxy.example.com:29042'' 3)"
    unfolding 1 by simp_all
  from t 2 have c: "\<not> IsResolved (astraEndpoint ''proxy.example.com:29042'' 4)"
    by blast
  from t 3
  have "\<forall>ep \<in> set (Factory_ContactPoints
        (defaultEndpointFactory [defaultEndpoint ''10.0.0.1:9042'', defaultEndpoint ''10.0.0.2:9043''] 9042)).
      IsResolved ep"
    by blast
  then have b: "IsResolved (defaultEndpoint ''10.0.0.1:9042'')"
    "IsResolved (defaultEndpoint ''10.0.0.2:9043'')"
    unfolding 5 by simp_all
  from t 4 have d: "IsResolved (defaultEndpoint ''10.0.0.5:9042'')"
    by blast
  from t have e: "String boot_heap (astraEndpoint ''proxy.example.com:29042'' 2)
     = Key boot_heap (astraEndpoint ''proxy.example.com:29042'' 2)"
    by blast
  from boot_value 1 a 2 c 3 b 4 d e show ?thesis by blast
qed

section \<open>Certificate verification and the bootstrap\<close>

lemma add_certs_set: "add_certs certs pool = set certs \<union> pool"
  by (induction certs arbitrary: pool) auto

lemma parse_certs_Inr:
  "parse_certs P rawCerts = Inr certs \<longleftrightarrow> map P rawCerts = map Inr certs"
proof (induction rawCerts arbitrary: certs)
  case Nil
  then show ?case by auto
next
  case (Cons a as)
  show ?case
  proof (cases "P a")
    case (Inl e)
    then show ?thesis by (cases certs) auto
  next
    case (Inr c)
    show ?thesis
    proof (cases "parse_certs P as")
      case (Inl e)
      with Cons.IH have "\<And>cs. map P as \<noteq> map Inr cs" by (metis sum.distinct(1))
      with Inl Inr show ?thesis by (cases certs) auto
    next
      case (Inr cs)
      with Cons.IH [of cs] have m: "map P as = map Inr cs" by simp
      have inj: "map Inr xs = map Inr ys \<Longrightarrow> xs = ys" for xs ys :: "Certificate list"
        using inj_map_eq_map [OF inj_Inr] by blast
      from Inr \<open>P a = Inr c\<close> m show ?thesis
        by (cases certs) (auto dest: inj)
    qed
  qed
qed

lemma parse_certs_Inl:
  "(\<exists>e. parse_certs P rawCerts = Inl e) \<longleftrightarrow> (\<exists>raw \<in> set rawCerts. \<exists>e. P raw = Inl e)"
  by (induction rawCerts) (auto split: sum.splits)

text \<open>
  C1.  The callback that \<open>copyTLSConfig\<close> installs, called in any later store, accepts
  a chain exactly when every presented certificate parses and the first one verifies
  with the options: roots, the pool of the bundle's base configuration; expected name,
  the bundle's host; time, the current time; intermediates, the certificates after the
  first.  A chain with a certificate that does not parse is refused with an error, and
  so is a chain whose leaf does not verify.  The server name given to \<open>copyTLSConfig\<close>
  has no influence on the outcome.
\<close>

theorem VerifyPeerCertificate_accepts:
  assumes "tlsConfig bundle < length h"
    and "copyTLSConfig bundle serverName h = (Inr p, h')"
    and "take (length h') hs = h'"
  shows "VerifyPeerCertificate (hs ! p) = Some (VerifyPeerCertificate_func p bundle) \<and>
     ((call_closure P V hs now (VerifyPeerCertificate_func p bundle) rawCerts = Inr ()) \<longleftrightarrow>
      (\<exists>leaf rest verified. map P rawCerts = map Inr (leaf # rest) \<and>
         V leaf \<lparr>Roots = RootCAs (h ! tlsConfig bundle), CurrentTime = now,
                 DNSName = Host bundle, Intermediates = Some (set rest)\<rparr> = Inr verified)) \<and>
     ((\<exists>raw \<in> set rawCerts. \<exists>e. P raw = Inl e) \<longrightarrow>
      (\<exists>e. call_closure P V hs now (VerifyPeerCertificate_func p bundle) rawCerts = Inl (Err e))) \<and>
     (\<forall>leaf rest err. map P rawCerts = map Inr (leaf # rest) \<and>
         V leaf \<lparr>Roots = RootCAs (h ! tlsConfig bundle), CurrentTime = now,
                 DNSName = Host bundle, Intermediates = Some (set rest)\<rparr> = Inl err \<longrightarrow>
         call_closure P V hs now (VerifyPeerCertificate_func p bundle) rawCerts = Inl (Err err)) \<and>
     (\<forall>otherName q hq. copyTLSConfig bundle otherName h = (Inr q, hq) \<longrightarrow>
         call_closure P V hq now (VerifyPeerCertificate_func q bundle) rawCerts
         = call_closure P V hs now (VerifyPeerCertificate_func p bundle) rawCerts)"
proof -
  from assms(1,2) have p: "p = length h"
    and h': "h' = h @ [(h ! tlsConfig bundle)\<lparr>ServerName := serverName,
                                      InsecureSkipVerify := True,
                                      VerifyPeerCertificate :=
                                        Some (VerifyPeerCertificate_func (length h) bundle)\<rparr>]"
    by (auto simp add: copyTLSConfig_alloc)
  have pl: "p < length h'" using p h' by simp
  have eq: "hs ! p = h' ! p"
    using assms(3) pl by (rule take_prefix_nth)
  have ps: "p < length hs"
    using take_prefix_length [OF assms(3)] pl by simp
  have roots: "RootCAs (hs ! p) = RootCAs (h ! tlsConfig bundle)"
    unfolding eq by (simp add: p h')
  have cb: "VerifyPeerCertificate (hs ! p) = Some (VerifyPeerCertificate_func p bundle)"
    unfolding eq by (simp add: p h')
  have call: "call_closure P V hx now (VerifyPeerCertificate_func x bundle) rawCerts =
     (case parse_certs P rawCerts of
        Inl e \<Rightarrow> Inl (Err e)
      | Inr [] \<Rightarrow> Inl (Panic SliceBoundsOutOfRange)
      | Inr (leaf # rest) \<Rightarrow>
          (case V leaf \<lparr>Roots = RootCAs (h ! tlsConfig bundle), CurrentTime = now,
                         DNSName = Host bundle, Intermediates = Some (set rest)\<rparr> of
             Inl err \<Rightarrow> Inl (Err err)
           | Inr verified \<Rightarrow> Inr ()))"
    if "x < length hx" "RootCAs (hx ! x) = RootCAs (h ! tlsConfig bundle)" for hx x
    using that by (simp add: add_certs_set split: sum.splits list.splits)
  note c = call [OF ps roots]
  have 1: "(call_closure P V hs now (VerifyPeerCertificate_func p bundle) rawCerts = Inr ()) \<longleftrightarrow>
      (\<exists>leaf rest verified. map P rawCerts = map Inr (leaf # rest) \<and>
         V leaf \<lparr>Roots = RootCAs (h ! tlsConfig bundle), CurrentTime = now,
                 DNSName = Host bundle, Intermediates = Some (set rest)\<rparr> = Inr verified)"
    unfolding c parse_certs_Inr [symmetric]
    by (auto split: sum.splits list.splits)
  have 2: "(\<exists>raw \<in> set rawCerts. \<exists>e. P raw = Inl e) \<longrightarrow>
      (\<exists>e. call_closure P V hs now (VerifyPeerCertificate_func p bundle) rawCerts = Inl (Err e))"
    unfolding c parse_certs_Inl [symmetric]
    by auto
  have 3: "\<forall>leaf rest err. map P rawCerts = map Inr (leaf # rest) \<and>
         V leaf \<lparr>Roots = RootCAs (h ! tlsConfig bundle), CurrentTime = now,
                 DNSName = Host bundle, Intermediates = Some (set rest)\<rparr> = Inl err \<longrightarrow>
         call_closure P V hs now (VerifyPeerCertificate_func p bundle) rawCerts = Inl (Err err)"
    unfolding c parse_certs_Inr [symmetric]
    by auto
  have 4: "\<forall>otherName q hq. copyTLSConfig bundle otherName h = (Inr q, hq) \<longrightarrow>
         call_closure P V hq now (VerifyPeerCertificate_func q bundle) rawCerts
         = call_closure P V hs now (VerifyPeerCertificate_func p bundle) rawCerts"
  proof (intro allI impI)
    fix otherName q hq
    assume "copyTLSConfig bundle otherName h = (Inr q, hq)"
    with assms(1) have "q < length hq" "RootCAs (hq ! q) = RootCAs (h ! tlsConfig bundle)"
      by (auto simp add: copyTLSConfig_alloc)
    from call [OF this] c
    show "call_closure P V hq now (VerifyPeerCertificate_func q bundle) rawCerts
         = call_closure P V hs now (VerifyPeerCertificate_func p bundle) rawCerts"
      by simp
  qed
  from cb 1 2 3 4 show ?thesis by blast
qed

lemma copy_id3:
  "copyTLSConfig bundle0 ''id-3'' boot_heap = (Inr 4, boot_heap @ [node_config ''id-3'' 4])"
  by (simp add: copyTLSConfig_def Bundle_TLSConfig_def bundle0_def boot_heap_def node_config_def)

theorem VerifyPeerCertificate_accepts_witness:
  "tlsConfig bundle0 < length boot_heap \<and>
   copyTLSConfig bundle0 ''id-3'' boot_heap = (Inr 4, boot_heap @ [node_config ''id-3'' 4]) \<and>
   VerifyPeerCertificate ((boot_heap @ [node_config ''id-3'' 4]) ! 4)
     = Some (VerifyPeerCertificate_func 4 bundle0) \<and>
   call_closure parse_sample verify_sample (boot_heap @ [node_config ''id-3'' 4]) 0
     (VerifyPeerCertificate_func 4 bundle0) [[1, 7], [1]] = Inr () \<and>
   (\<exists>e. call_closure parse_sample verify_sample (boot_heap @ [node_config ''id-3'' 4]) 0
     (VerifyPeerCertificate_func 4 bundle0) [[1, 7], []] = Inl (Err e)) \<and>
   call_closure parse_sample verify_sample (boot_heap @ [node_config ''id-3'' 4]) 0
     (VerifyPeerCertificate_func 4 bundle0) [[2, 7], [1]]
     = Inl (Err (ErrorString ''x509: certificate signed by unknown authority''))"
proof -
  have v: "tlsConfig bundle0 < length boot_heap"
    by (simp add: bundle0_def boot_heap_def)
  have t: "take (length (boot_heap @ [node_config ''id-3'' 4])) (boot_heap @ [node_config ''id-3'' 4])
           = boot_heap @ [node_config ''id-3'' 4]"
    by simp
  have r: "RootCAs (boot_heap ! tlsConfig bundle0) = Some {Certificate [1]}"
    "RootCAs (boot_heap ! 0) = Some {Certificate [1]}"
    by (simp_all add: bundle0_def boot_heap_def base_config_def)
  have ok: "map parse_sample [[1, 7], [1]] = map Inr [Certificate [1, 7], Certificate [1]] \<and>
     verify_sample (Certificate [1, 7])
       \<lparr>Roots = RootCAs (boot_heap ! tlsConfig bundle0), CurrentTime = 0,
          DNSName = Host bundle0, Intermediates = Some (set [Certificate [1]])\<rparr>
     = Inr [[Certificate [1, 7], Certificate [1]]]"
    by (simp add: parse_sample_def verify_sample_def r Host_def bundle0_def)
  have bad: "\<exists>raw \<in> set [[1, 7], []]. \<exists>e. parse_sample raw = Inl e"
    by (simp add: parse_sample_def)
  have unknown: "map parse_sample [[2, 7], [1]] = map Inr [Certificate [2, 7], Certificate [1]] \<and>
     verify_sample (Certificate [2, 7])
       \<lparr>Roots = RootCAs (boot_heap ! tlsConfig bundle0), CurrentTime = 0,
          DNSName = Host bundle0, Intermediates = Some (set [Certificate [1]])\<rparr>
     = Inl (ErrorString ''x509: certificate signed by unknown authority'')"
    by (simp add: parse_sample_def verify_sample_def r Host_def bundle0_def)
  from VerifyPeerCertificate_accepts [OF v copy_id3 t, of parse_sample verify_sample 0 "[[1, 7], [1]]"] ok
  have 1: "VerifyPeerCertificate ((boot_heap @ [node_config ''id-3'' 4]) ! 4)
     = Some (VerifyPeerCertificate_func 4 bundle0)"
    and 2: "call_closure parse_sample verify_sample (boot_heap @ [node_config ''id-3'' 4]) 0
     (VerifyPeerCertificate_func 4 bundle0) [[1, 7], [1]] = Inr ()"
    by blast+
  from VerifyPeerCertificate_accepts [OF v copy_id3 t, of parse_sample verify_sample 0 "[[1, 7], []]"] bad
  have 3: "\<exists>e. call_closure parse_sample verify_sample (boot_heap @ [node_config ''id-3'' 4]) 0
     (VerifyPeerCertificate_func 4 bundle0) [[1, 7], []] = Inl (Err e)"
    by blast
  from VerifyPeerCertificate_accepts [OF v copy_id3 t, of parse_sample verify_sample 0 "[[2, 7], [1]]"] unknown
  have 4: "call_closure parse_sample verify_sample (boot_heap @ [node_config ''id-3'' 4]) 0
     (VerifyPeerCertificate_func 4 bundle0) [[2, 7], [1]]
     = Inl (Err (ErrorString ''x509: certificate signed by unknown authority''))"
    by blast
  from v copy_id3 1 2 3 4 show ?thesis by blast
qed

text \<open>
  C2, as the code has it.  A transport failure makes \<open>ResolveAstra\<close> fail with an
  error whose message contains the metadata URL.  A body that cannot be read or that
  \<open>json.Unmarshal\<close> rejects makes it fail with that very error, whose message is the
  reader's or the decoder's.  In each case no factory is returned.  The status code of
  the response is never read: changing it changes nothing.
\<close>

theorem ResolveAstra_failures:
  "(G (metadata_url bundle) = Inl err \<longrightarrow>
      fst (ResolveAstra G U bundle h)
      = Inl (Err (ErrorString (''unable to get metadata from '' @ metadata_url bundle @
                                '': '' @ Error err))))
   \<and> (G (metadata_url bundle) = Inr response \<and> Body response = Inl err \<longrightarrow>
      fst (ResolveAstra G U bundle h) = Inl (Err err))
   \<and> (G (metadata_url bundle) = Inr response \<and> Body response = Inr body \<and> U body = Inl err \<longrightarrow>
      fst (ResolveAstra G U bundle h) = Inl (Err err))
   \<and> ResolveAstra (\<lambda>url. case G url of Inl e \<Rightarrow> Inl e
                             | Inr resp \<Rightarrow> Inr (resp\<lparr>StatusCode := status\<rparr>)) U bundle h
     = ResolveAstra G U bundle h"
  by (auto simp add: ResolveAstra_def split: prod.splits sum.splits option.splits)

theorem ResolveAstra_failures_witness:
  "refuse ''dial tcp: connection refused'' (metadata_url bundle0)
     = Inl (ErrorString ''dial tcp: connection refused'') \<and>
   fst (ResolveAstra (refuse ''dial tcp: connection refused'') unmarshal_sample bundle0 heap0)
     = Inl (Err (ErrorString
         ''unable to get metadata from https://db.example.com:29080/metadata: dial tcp: connection refused'')) \<and>
   respond 200 ''{'' (metadata_url bundle0) = Inr \<lparr>StatusCode = 200, Body = Inr ''{''\<rparr> \<and>
   unmarshal_sample ''{'' = Inl (ErrorString ''unexpected end of JSON input'') \<and>
   fst (ResolveAstra (respond 200 ''{'') unmarshal_sample bundle0 heap0)
     = Inl (Err (ErrorString ''unexpected end of JSON input'')) \<and>
   fst (ResolveAstra (\<lambda>url. Inr \<lparr>StatusCode = 200, Body = Inl (ErrorString ''unexpected EOF'')\<rparr>)
          unmarshal_sample bundle0 heap0)
     = Inl (Err (ErrorString ''unexpected EOF''))"
proof -
  have url: "metadata_url bundle0 = ''https://db.example.com:29080/metadata''"
    by (simp add: metadata_url_def Host_def Port_def bundle0_def format_int_def)
  have g: "refuse ''dial tcp: connection refused'' (metadata_url bundle0)
     = Inl (ErrorString ''dial tcp: connection refused'')"
    by (simp add: refuse_def)
  have r: "respond 200 ''{'' (metadata_url bundle0) = Inr \<lparr>StatusCode = 200, Body = Inr ''{''\<rparr>"
    by (simp add: respond_def)
  have u: "unmarshal_sample ''{'' = Inl (ErrorString ''unexpected end of JSON input'')"
    by (simp add: unmarshal_sample_def metadata_json_def)
  from ResolveAstra_failures [of "refuse ''dial tcp: connection refused''" bundle0
      "ErrorString ''dial tcp: connection refused''" unmarshal_sample heap0] g
  have 1: "fst (ResolveAstra (refuse ''dial tcp: connection refused'') unmarshal_sample bundle0 heap0)
     = Inl (Err (ErrorString
         ''unable to get metadata from https://db.example.com:29080/metadata: dial tcp: connection refused''))"
    by (simp add: url)
  from ResolveAstra_failures [of "respond 200 ''{''" bundle0
      "ErrorString ''unexpected end of JSON input''" unmarshal_sample heap0
      "\<lparr>StatusCode = 200, Body = Inr ''{''\<rparr>" "''{''"] r u
  have 2: "fst (ResolveAstra (respond 200 ''{'') unmarshal_sample bundle0 heap0)
     = Inl (Err (ErrorString ''unexpected end of JSON input''))"
    by simp
  from ResolveAstra_failures [of
      "\<lambda>url. Inr \<lparr>StatusCode = 200, Body = Inl (ErrorString ''unexpected EOF'')\<rparr>" bundle0
      "ErrorString ''unexpected EOF''" unmarshal_sample heap0
      "\<lparr>StatusCode = 200, Body = Inl (ErrorString ''unexpected EOF'')\<rparr>"]
  have 3: "fst (ResolveAstra (\<lambda>url. Inr \<lparr>StatusCode = 200, Body = Inl (ErrorString ''unexpected EOF'')\<rparr>)
          unmarshal_sample bundle0 heap0)
     = Inl (Err (ErrorString ''unexpected EOF''))"
    by simp
  from g 1 r u 2 3 show ?thesis by blast
qed

text \<open>
  C2 as stated fails: a response with status 500 and the body \<open>{}\<close> gives a factory
  and no error, and the error for a truncated body does not mention the URL.
\<close>


theorem ResolveAstra_status_counterexample:
  "respond 500 ''{}'' (metadata_url bundle0) = Inr \<lparr>StatusCode = 500, Body = Inr ''{}''\<rparr> \<and>
   fst (ResolveAstra (respond 500 ''{}'') unmarshal_sample bundle0 heap0)
     = Inr (astraResolver [] [] bundle0) \<and>
   metadata_url bundle0 = ''https://db.example.com:29080/metadata'' \<and>
   fst (ResolveAstra (respond 200 ''{'') unmarshal_sample bundle0 heap0)
     = Inl (Err (ErrorString ''unexpected end of JSON input''))"
  by (simp add: ResolveAstra_def respond_def unmarshal_sample_def metadata_json_def
      zero_metadata_def Bundle_TLSConfig_def bundle0_def heap0_def metadata_url_def Host_def
      Port_def format_int_def)

end
